theory Spec2Isabelle
  imports Complex_Main
begin

section \<open>Data model\<close>

text \<open>
  The errors a fetch can raise. \<open>IndexKind\<close> is Python's IndexError (an index outside the
  first axis), \<open>SchemaKind\<close> is KeyError (a field that the container does not have),
  \<open>TypeKind\<close> is TypeError (\<open>len\<close> of a 0-d tensor, \<open>torch.from_numpy\<close> of a numpy
  scalar), \<open>ShapeKind\<close> is the RuntimeError of an arithmetic operation on tensors
  whose shapes do not fit, and \<open>OverflowKind\<close> is the RuntimeError of torch for a
  number that does not fit a 64-bit integer (an index of a tensor, the value of
  \<open>torch.tensor(idx)\<close>, a label that \<open>torch.tensor(..., dtype=torch.long)\<close> cannot
  represent).
\<close>

datatype error = IndexKind | SchemaKind | TypeKind | ShapeKind | OverflowKind

text \<open>
  An entry of an array is a number or NaN (a missing value). The rounding of float32 is
  not modelled: the entries are reals, and the element type of an array is kept as a tag.
\<close>

datatype scalar = NaN | Fin real

datatype nd = Num scalar | Arr "nd list"

datatype dtype = Float32 | Float64 | Int64

text \<open>
  A numpy array and a torch tensor are both a dtype with nested entries;
  \<open>Tensor d (Num s)\<close> is a 0-d tensor or a numpy scalar.
\<close>

datatype tensor = Tensor (dtype_of: dtype) (vals: nd)

text \<open>
  A dict of arrays and an opened HDF5 file are both read by key, and both answer the
  membership test \<open>k in c.keys()\<close>.
\<close>

type_synonym container = "(string \<times> tensor) list"

text \<open>
  Modelled from the spec: the class BaseDataset is not among the sources. These are the
  attributes of it that DatasetForCSDI reads: \<open>self.X\<close> and \<open>self.y\<close> (the tensors of the
  in-memory mode, \<open>y\<close> being None without labels), \<open>self.data\<close> (the dict of the
  in-memory mode), \<open>self.file_handle\<close> (None until the file is opened), \<open>self.n_steps\<close>,
  \<open>self.return_labels\<close>, and \<open>self.rate\<close>, which DatasetForCSDI's constructor adds.
  \<open>self_file\<close> is the content of the file that \<open>self.data\<close> names in the file-backed mode.
\<close>

record dataset =
  self_X :: tensor
  self_y :: "tensor option"
  self_data :: container
  self_file :: container
  self_file_handle :: "container option"
  self_n_steps :: nat
  self_return_labels :: bool
  self_rate :: real

text \<open>
  The masker \<open>pygrinder.mcar\<close> is an external collaborator and a parameter of the model.
  It draws random numbers, so it takes the state of the random generator as an argument.
  It returns \<open>(X_intact, X, missing_mask, indicating_mask)\<close>.
\<close>

type_synonym 'r masker = "'r \<Rightarrow> tensor \<Rightarrow> real \<Rightarrow> tensor \<times> tensor \<times> tensor \<times> tensor"

section \<open>Operations of the array framework\<close>

definition then_res :: "error + 'a \<Rightarrow> ('a \<Rightarrow> error + 'b) \<Rightarrow> error + 'b" where
  "then_res r f = (case r of Inl e \<Rightarrow> Inl e | Inr v \<Rightarrow> f v)"

text \<open>
  \<open>a[idx]\<close> on the first axis of a numpy array or of a dataset of the file: a negative
  index counts from the end, an index outside the axis raises IndexError, and so does
  indexing a 0-d array.
\<close>

definition getitem :: "tensor \<Rightarrow> int \<Rightarrow> error + tensor" where
  "getitem a idx =
     (case vals a of
        Num s \<Rightarrow> Inl IndexKind
      | Arr rows \<Rightarrow>
          if 0 \<le> idx \<and> idx < int (length rows)
            then Inr (Tensor (dtype_of a) (rows ! nat idx))
          else if idx < 0 \<and> - int (length rows) \<le> idx
            then Inr (Tensor (dtype_of a) (rows ! nat (int (length rows) + idx)))
          else Inl IndexKind)"

text \<open>
  \<open>t[idx]\<close> on a torch tensor: torch first unpacks the index into a 64-bit integer and
  raises RuntimeError when it does not fit; then it indexes as above.
  \<open>torch.tensor(idx)\<close> unpacks the index in the same way.
\<close>

definition fits_int64 :: "int \<Rightarrow> bool" where
  "fits_int64 i = (- 9223372036854775808 \<le> i \<and> i < 9223372036854775808)"

definition tensor_getitem :: "tensor \<Rightarrow> int \<Rightarrow> error + tensor" where
  "tensor_getitem t idx = (if fits_int64 idx then getitem t idx else Inl OverflowKind)"

definition index_tensor :: "int \<Rightarrow> error + tensor" where
  "index_tensor idx =
     (if fits_int64 idx then Inr (Tensor Int64 (Num (Fin (of_int idx)))) else Inl OverflowKind)"

text \<open>\<open>len(t)\<close>: the size of the first axis; a 0-d tensor has no length.\<close>

definition py_len :: "tensor \<Rightarrow> error + nat" where
  "py_len t = (case vals t of Num s \<Rightarrow> Inl TypeKind | Arr rows \<Rightarrow> Inr (length rows))"

text \<open>\<open>torch.from_numpy\<close> takes an ndarray and refuses a numpy scalar.\<close>

definition from_numpy :: "tensor \<Rightarrow> error + tensor" where
  "from_numpy a = (case vals a of Num s \<Rightarrow> Inl TypeKind | Arr rows \<Rightarrow> Inr a)"

text \<open>
  \<open>t.to(dtype)\<close>: the cast to an integer type truncates towards zero, and it does not
  check: NaN and a number outside the 64-bit range become the least 64-bit integer,
  which is what the conversion of the processor yields. The cast to a floating-point
  type keeps the entry (its rounding is not modelled).
\<close>

definition truncate_real :: "real \<Rightarrow> int" where
  "truncate_real r = (if 0 \<le> r then \<lfloor>r\<rfloor> else \<lceil>r\<rceil>)"

fun cast_scalar :: "dtype \<Rightarrow> scalar \<Rightarrow> scalar" where
  "cast_scalar Int64 (Fin r) =
     (if fits_int64 (truncate_real r) then Fin (of_int (truncate_real r))
      else Fin (- 9223372036854775808))"
| "cast_scalar Int64 NaN = Fin (- 9223372036854775808)"
| "cast_scalar d s = s"

fun map_nd :: "(scalar \<Rightarrow> scalar) \<Rightarrow> nd \<Rightarrow> nd" where
  "map_nd f (Num s) = Num (f s)"
| "map_nd f (Arr rows) = Arr (map (map_nd f) rows)"

definition to_dtype :: "dtype \<Rightarrow> tensor \<Rightarrow> tensor" where
  "to_dtype d t = Tensor d (map_nd (cast_scalar d) (vals t))"

text \<open>
  \<open>torch.tensor(v, dtype=torch.long)\<close> of a value read from the file: a scalar is
  converted with a check, and NaN or a number beyond the 64-bit range raises
  RuntimeError; what passes the check, and every array, is cast as \<open>to\<close> casts it.
\<close>

definition tensor_long :: "tensor \<Rightarrow> error + tensor" where
  "tensor_long v =
     (case vals v of
        Num NaN \<Rightarrow> Inl OverflowKind
      | Num (Fin r) \<Rightarrow>
          if r < - 9223372036854775808 \<or> 9223372036854775808 < r then Inl OverflowKind
          else Inr (to_dtype Int64 v)
      | Arr rows \<Rightarrow> Inr (to_dtype Int64 v))"

text \<open>\<open>torch.zeros(n)\<close> and \<open>torch.arange(0, n, dtype=torch.float32)\<close>.\<close>

definition zeros :: "nat \<Rightarrow> tensor" where
  "zeros n = Tensor Float32 (Arr (replicate n (Num (Fin 0))))"

definition arange :: "nat \<Rightarrow> tensor" where
  "arange n = Tensor Float32 (Arr (map (\<lambda>k. Num (Fin (real k))) [0..<n]))"

text \<open>
  \<open>t + u\<close>: entry by entry on tensors of one shape, with the result type of torch's type
  promotion. On two different shapes torch broadcasts where it can and raises
  otherwise; the model has the error for every such pair, so it says nothing about a
  masker whose two masks differ in shape.
\<close>

fun add_scalar :: "scalar \<Rightarrow> scalar \<Rightarrow> scalar" where
  "add_scalar (Fin a) (Fin b) = Fin (a + b)"
| "add_scalar a b = NaN"

fun pointwise :: "(scalar \<Rightarrow> scalar \<Rightarrow> scalar) \<Rightarrow> nd \<Rightarrow> nd \<Rightarrow> error + nd"
  and pointwise_rows ::
    "(scalar \<Rightarrow> scalar \<Rightarrow> scalar) \<Rightarrow> nd list \<Rightarrow> nd list \<Rightarrow> error + nd list" where
  "pointwise f (Num a) (Num b) = Inr (Num (f a b))"
| "pointwise f (Arr xs) (Arr ys) = then_res (pointwise_rows f xs ys) (\<lambda>zs. Inr (Arr zs))"
| "pointwise f (Num a) (Arr ys) = Inl ShapeKind"
| "pointwise f (Arr xs) (Num b) = Inl ShapeKind"
| "pointwise_rows f [] [] = Inr []"
| "pointwise_rows f (x # xs) (y # ys) =
     then_res (pointwise f x y) (\<lambda>z.
     then_res (pointwise_rows f xs ys) (\<lambda>zs. Inr (z # zs)))"
| "pointwise_rows f [] (y # ys) = Inl ShapeKind"
| "pointwise_rows f (x # xs) [] = Inl ShapeKind"

fun promote :: "dtype \<Rightarrow> dtype \<Rightarrow> dtype" where
  "promote Int64 d = d"
| "promote d Int64 = d"
| "promote Float32 Float32 = Float32"
| "promote d e = Float64"

definition tensor_add :: "tensor \<Rightarrow> tensor \<Rightarrow> error + tensor" where
  "tensor_add t u =
     then_res (pointwise add_scalar (vals t) (vals u))
       (\<lambda>v. Inr (Tensor (promote (dtype_of t) (dtype_of u)) v))"

text \<open>\<open>k in c.keys()\<close> and \<open>c[k]\<close>, which raises KeyError for a key that is not there.\<close>

definition has_key :: "container \<Rightarrow> string \<Rightarrow> bool" where
  "has_key c k = (map_of c k \<noteq> None)"

definition lookup :: "container \<Rightarrow> string \<Rightarrow> error + tensor" where
  "lookup c k = (case map_of c k of None \<Rightarrow> Inl SchemaKind | Some a \<Rightarrow> Inr a)"

text \<open>
  The expression \<open>torch.from_numpy(c[k][idx]).to(torch.float32)\<close>, which both fetch paths
  use for every field they read from a container.
\<close>

definition load_float32 :: "container \<Rightarrow> string \<Rightarrow> int \<Rightarrow> error + tensor" where
  "load_float32 c k idx =
     then_res (lookup c k) (\<lambda>a.
     then_res (getitem a idx) (\<lambda>row.
     then_res (from_numpy row) (\<lambda>t. Inr (to_dtype Float32 t))))"

section \<open>The sample assembler\<close>

text \<open>
  Modelled from the spec: \<open>BaseDataset._open_file_handle\<close> is not among the sources. It
  opens the file the dataset was built on and returns the handle its fields are read
  through.
\<close>

definition open_file_handle :: "dataset \<Rightarrow> container" where
  "open_file_handle self = self_file self"

text \<open>
  \<open>DatasetForCSDI._fetch_data_from_array\<close>. It assigns to no attribute, so the dataset it
  returns is the one it got.
\<close>

definition fetch_data_from_array ::
  "'r masker \<Rightarrow> 'r \<Rightarrow> dataset \<Rightarrow> int \<Rightarrow> (error + tensor list) \<times> dataset" where
  "fetch_data_from_array mcar rng self idx =
    (then_res (tensor_getitem (self_X self) idx) (\<lambda>x.
       case mcar rng (to_dtype Float32 x) (self_rate self) of
         (X_intact, X_masked, missing_mask, indicating_mask) \<Rightarrow>
       let observed_data = X_intact in
       then_res (tensor_add missing_mask indicating_mask) (\<lambda>observed_mask.
       let gt_mask = missing_mask in
       then_res (if \<not> has_key (self_data self) ''time_points''
                 then Inr (arange (self_n_steps self))
                 else load_float32 (self_data self) ''time_points'' idx) (\<lambda>observed_tp.
       then_res (if \<not> has_key (self_data self) ''for_pattern_mask''
                 then Inr gt_mask
                 else load_float32 (self_data self) ''for_pattern_mask'' idx) (\<lambda>for_pattern_mask.
       then_res (if \<not> has_key (self_data self) ''cut_length''
                 then then_res (py_len observed_data) (\<lambda>n. Inr (to_dtype Int64 (zeros n)))
                 else load_float32 (self_data self) ''cut_length'' idx) (\<lambda>cut_length.
       then_res (index_tensor idx) (\<lambda>index.
       let sample = [index, observed_data, observed_mask,
                     observed_tp, gt_mask, for_pattern_mask, cut_length] in
       case self_y self of
         None \<Rightarrow> Inr sample
       | Some y \<Rightarrow>
           if self_return_labels self
           then then_res (tensor_getitem y idx) (\<lambda>label. Inr (sample @ [to_dtype Int64 label]))
           else Inr sample)))))),
     self)"

text \<open>
  \<open>DatasetForCSDI._fetch_data_from_file\<close>. The handle is opened when the attribute is
  None and stays in the dataset, also when the fetch raises afterwards.
\<close>

definition fetch_data_from_file ::
  "'r masker \<Rightarrow> 'r \<Rightarrow> dataset \<Rightarrow> int \<Rightarrow> (error + tensor list) \<times> dataset" where
  "fetch_data_from_file mcar rng self idx =
    (case (case self_file_handle self of
             None \<Rightarrow> (open_file_handle self,
                       self\<lparr>self_file_handle := Some (open_file_handle self)\<rparr>)
           | Some h \<Rightarrow> (h, self)) of
       (file_handle, self') \<Rightarrow>
    (then_res (load_float32 file_handle ''X'' idx) (\<lambda>x.
       case mcar rng x (self_rate self') of
         (X_intact, X_masked, missing_mask, indicating_mask) \<Rightarrow>
       let observed_data = X_intact in
       then_res (tensor_add missing_mask indicating_mask) (\<lambda>observed_mask.
       let gt_mask = indicating_mask in
       then_res (if \<not> has_key file_handle ''time_points''
                 then Inr (arange (self_n_steps self'))
                 else load_float32 file_handle ''time_points'' idx) (\<lambda>observed_tp.
       then_res (if \<not> has_key file_handle ''for_pattern_mask''
                 then Inr gt_mask
                 else load_float32 file_handle ''for_pattern_mask'' idx) (\<lambda>for_pattern_mask.
       then_res (if \<not> has_key file_handle ''cut_length''
                 then then_res (py_len observed_data) (\<lambda>n. Inr (to_dtype Int64 (zeros n)))
                 else load_float32 file_handle ''cut_length'' idx) (\<lambda>cut_length.
       then_res (index_tensor idx) (\<lambda>index.
       let sample = [index, observed_data, observed_mask,
                     observed_tp, gt_mask, for_pattern_mask, cut_length] in
       if has_key file_handle ''y'' \<and> self_return_labels self'
       then then_res (lookup file_handle ''y'') (\<lambda>y.
            then_res (getitem y idx) (\<lambda>value.
            then_res (tensor_long value) (\<lambda>label. Inr (sample @ [label]))))
       else Inr sample)))))),
     self'))"

section \<open>Notions of the specification\<close>

text \<open>
  A mask is binary when every entry is 0 or 1. Two masks are disjoint when they have one
  shape and at every position one of the two entries is 0 (their product is zero).
\<close>

fun binary_nd :: "nd \<Rightarrow> bool" where
  "binary_nd (Num s) = (s = Fin 0 \<or> s = Fin 1)"
| "binary_nd (Arr rows) = (\<forall>r \<in> set rows. binary_nd r)"

fun disjoint_nd :: "nd \<Rightarrow> nd \<Rightarrow> bool"
  and disjoint_rows :: "nd list \<Rightarrow> nd list \<Rightarrow> bool" where
  "disjoint_nd (Num a) (Num b) = (a = Fin 0 \<or> b = Fin 0)"
| "disjoint_nd (Arr xs) (Arr ys) = disjoint_rows xs ys"
| "disjoint_nd (Num a) (Arr ys) = False"
| "disjoint_nd (Arr xs) (Num b) = False"
| "disjoint_rows [] [] = True"
| "disjoint_rows (x # xs) (y # ys) = (disjoint_nd x y \<and> disjoint_rows xs ys)"
| "disjoint_rows [] (y # ys) = False"
| "disjoint_rows (x # xs) [] = False"

fun same_shape :: "nd \<Rightarrow> nd \<Rightarrow> bool"
  and same_shape_rows :: "nd list \<Rightarrow> nd list \<Rightarrow> bool" where
  "same_shape (Num a) (Num b) = True"
| "same_shape (Arr xs) (Arr ys) = same_shape_rows xs ys"
| "same_shape (Num a) (Arr ys) = False"
| "same_shape (Arr xs) (Num b) = False"
| "same_shape_rows [] [] = True"
| "same_shape_rows (x # xs) (y # ys) = (same_shape x y \<and> same_shape_rows xs ys)"
| "same_shape_rows [] (y # ys) = False"
| "same_shape_rows (x # xs) [] = False"

text \<open>
  The contract with the masker, for one call with the series \<open>x\<close>: the four results
  have the shape of the input, the two masks are binary, and they are disjoint.
\<close>

definition masker_contract :: "tensor \<Rightarrow> tensor \<times> tensor \<times> tensor \<times> tensor \<Rightarrow> bool" where
  "masker_contract x out =
     (case out of (X_intact, X_masked, missing_mask, indicating_mask) \<Rightarrow>
        same_shape (vals X_intact) (vals x) \<and> same_shape (vals X_masked) (vals x) \<and>
        same_shape (vals missing_mask) (vals x) \<and> same_shape (vals indicating_mask) (vals x) \<and>
        binary_nd (vals missing_mask) \<and> binary_nd (vals indicating_mask) \<and>
        disjoint_nd (vals missing_mask) (vals indicating_mask))"

text \<open>
  A source is readable at an index when each of the three optional fields that it has
  yields a tensor there.
\<close>

definition fields_readable :: "container \<Rightarrow> int \<Rightarrow> bool" where
  "fields_readable c idx =
     (\<forall>k \<in> set [''time_points'', ''for_pattern_mask'', ''cut_length''].
        has_key c k \<longrightarrow> \<not> isl (load_float32 c k idx))"

text \<open>The logical OR of two entries, as a number: 1 when one of them is not 0.\<close>

definition or_scalar :: "scalar \<Rightarrow> scalar \<Rightarrow> scalar" where
  "or_scalar a b = (if a \<noteq> Fin 0 \<or> b \<noteq> Fin 0 then Fin 1 else Fin 0)"

text \<open>
  A masker that differs from \<open>mcar\<close> in the artificially-masked series only: the second
  component of every result is replaced.
\<close>

definition replace_masked :: "(tensor \<Rightarrow> tensor) \<Rightarrow> 'r masker \<Rightarrow> 'r masker" where
  "replace_masked g mcar =
     (\<lambda>rng x p. case mcar rng x p of
        (X_intact, X_masked, missing_mask, indicating_mask) \<Rightarrow>
          (X_intact, g X_masked, missing_mask, indicating_mask))"

section \<open>A reference masker and two small datasets\<close>

text \<open>
  The theorems below hold for every masker. To run them on an input, this is a masker
  with the behaviour of \<open>mcar\<close>: the state of the generator is the random order in which
  the flat positions of the series are considered; of the observed (non-NaN) positions,
  the first \<open>\<lfloor>n * p\<rfloor>\<close> in that order are hidden, \<open>n\<close> being their number.
  The missing mask has 1 where a value is still observed after that, the indicating
  mask has 1 where a value was hidden; NaN is replaced by 0 in both series.
\<close>

fun flatten :: "nd \<Rightarrow> scalar list" where
  "flatten (Num s) = [s]"
| "flatten (Arr rows) = concat (map flatten rows)"

fun at_positions :: "(nat \<Rightarrow> scalar \<Rightarrow> scalar) \<Rightarrow> nat \<Rightarrow> nd \<Rightarrow> nd"
  and at_positions_rows :: "(nat \<Rightarrow> scalar \<Rightarrow> scalar) \<Rightarrow> nat \<Rightarrow> nd list \<Rightarrow> nd list" where
  "at_positions f k (Num s) = Num (f k s)"
| "at_positions f k (Arr rows) = Arr (at_positions_rows f k rows)"
| "at_positions_rows f k [] = []"
| "at_positions_rows f k (r # rows) =
     at_positions f k r # at_positions_rows f (k + length (flatten r)) rows"

fun nan_to_num :: "scalar \<Rightarrow> scalar" where
  "nan_to_num NaN = Fin 0"
| "nan_to_num (Fin r) = Fin r"

definition mcar_ref :: "nat list masker" where
  "mcar_ref order X p =
     (let entries = flatten (vals X);
          observed = filter (\<lambda>k. entries ! k \<noteq> NaN) [0..<length entries];
          hidden = take (nat \<lfloor>real (length observed) * p\<rfloor>)
                     (filter (\<lambda>k. k \<in> set observed) order)
      in (Tensor (dtype_of X) (map_nd nan_to_num (vals X)),
          Tensor (dtype_of X)
            (at_positions (\<lambda>k s. if k \<in> set hidden then Fin 0 else nan_to_num s) 0 (vals X)),
          Tensor Float32
            (at_positions (\<lambda>k s. if s = NaN \<or> k \<in> set hidden then Fin 0 else Fin 1) 0 (vals X)),
          Tensor Float32
            (at_positions (\<lambda>k s. if k \<in> set hidden then Fin 1 else Fin 0) 0 (vals X))))"

text \<open>
  Two samples of two steps and two features, one value missing, with labels and with
  the three optional fields; once as a dict in memory and once as a file.
\<close>

definition example_X :: tensor where
  "example_X = Tensor Float64
     (Arr [Arr [Arr [Num (Fin 1), Num (Fin 2)], Arr [Num (Fin 3), Num NaN]],
           Arr [Arr [Num (Fin 5), Num (Fin 6)], Arr [Num (Fin 7), Num (Fin 8)]]])"

definition example_y :: tensor where
  "example_y = Tensor Int64 (Arr [Num (Fin 0), Num (Fin 1)])"

definition example_cut_length :: tensor where
  "example_cut_length = Tensor Int64 (Arr [Arr [Num (Fin 0), Num (Fin 0)], Arr [Num (Fin 0), Num (Fin 1)]])"

definition example_time_points :: tensor where
  "example_time_points =
     Tensor Float64 (Arr [Arr [Num (Fin 0), Num (Fin (1 / 2))], Arr [Num (Fin 0), Num (Fin 2)]])"

definition example_for_pattern_mask :: tensor where
  "example_for_pattern_mask = Tensor Float64
     (Arr [Arr [Arr [Num (Fin 1), Num (Fin 0)], Arr [Num (Fin 1), Num (Fin 0)]],
           Arr [Arr [Num (Fin 1), Num (Fin 1)], Arr [Num (Fin 0), Num (Fin 0)]]])"

definition example_fields :: container where
  "example_fields =
     [(''X'', example_X), (''y'', example_y), (''time_points'', example_time_points),
      (''for_pattern_mask'', example_for_pattern_mask), (''cut_length'', example_cut_length)]"

definition in_memory_example :: dataset where
  "in_memory_example =
     \<lparr>self_X = example_X, self_y = Some example_y, self_data = example_fields,
      self_file = [], self_file_handle = None, self_n_steps = 2,
      self_return_labels = True, self_rate = 1 / 2\<rparr>"

definition file_example :: dataset where
  "file_example =
     \<lparr>self_X = Tensor Float32 (Arr []), self_y = None, self_data = [],
      self_file = example_fields, self_file_handle = None, self_n_steps = 2,
      self_return_labels = True, self_rate = 1 / 2\<rparr>"

text \<open>The same two datasets without any optional field but the labels.\<close>

definition plain_fields :: container where
  "plain_fields = [(''X'', example_X), (''y'', example_y)]"

definition in_memory_plain :: dataset where
  "in_memory_plain = in_memory_example\<lparr>self_data := plain_fields\<rparr>"

definition file_plain :: dataset where
  "file_plain = file_example\<lparr>self_file := plain_fields\<rparr>"

text \<open>
  The series at index 0, as it is stored and as float32, and what the reference masker
  makes of it at rate 1/2: of its three observed values one is hidden, the one at flat
  position 2 when the order starts with 2, the one at position 0 when it starts with 0.
\<close>

definition series_0 :: tensor where
  "series_0 = Tensor Float64 (Arr [Arr [Num (Fin 1), Num (Fin 2)], Arr [Num (Fin 3), Num NaN]])"

definition series_0_float32 :: tensor where
  "series_0_float32 =
     Tensor Float32 (Arr [Arr [Num (Fin 1), Num (Fin 2)], Arr [Num (Fin 3), Num NaN]])"

definition intact_0 :: tensor where
  "intact_0 = Tensor Float32 (Arr [Arr [Num (Fin 1), Num (Fin 2)], Arr [Num (Fin 3), Num (Fin 0)]])"

definition masked_0_hide_2 :: tensor where
  "masked_0_hide_2 =
     Tensor Float32 (Arr [Arr [Num (Fin 1), Num (Fin 2)], Arr [Num (Fin 0), Num (Fin 0)]])"

definition missing_mask_hide_2 :: tensor where
  "missing_mask_hide_2 =
     Tensor Float32 (Arr [Arr [Num (Fin 1), Num (Fin 1)], Arr [Num (Fin 0), Num (Fin 0)]])"

definition indicating_mask_hide_2 :: tensor where
  "indicating_mask_hide_2 =
     Tensor Float32 (Arr [Arr [Num (Fin 0), Num (Fin 0)], Arr [Num (Fin 1), Num (Fin 0)]])"

definition missing_mask_hide_0 :: tensor where
  "missing_mask_hide_0 =
     Tensor Float32 (Arr [Arr [Num (Fin 0), Num (Fin 1)], Arr [Num (Fin 1), Num (Fin 0)]])"

definition indicating_mask_hide_0 :: tensor where
  "indicating_mask_hide_0 =
     Tensor Float32 (Arr [Arr [Num (Fin 1), Num (Fin 0)], Arr [Num (Fin 0), Num (Fin 0)]])"

text \<open>
  The sample that a fetch of index 0 returns from the datasets above, given its
  \<open>time_points\<close>, \<open>gt_mask\<close>, \<open>for_pattern_mask\<close> and \<open>cut_length\<close>: from a dataset
  without optional fields, where these are the defaults, and from one with them.
\<close>

definition sample_0 :: "tensor \<Rightarrow> tensor \<Rightarrow> tensor \<Rightarrow> tensor \<Rightarrow> tensor list" where
  "sample_0 time_points gt_mask for_pattern_mask cut_length =
     [Tensor Int64 (Num (Fin 0)),
      intact_0,
      Tensor Float32 (Arr [Arr [Num (Fin 1), Num (Fin 1)], Arr [Num (Fin 1), Num (Fin 0)]]),
      time_points,
      gt_mask,
      for_pattern_mask,
      cut_length,
      Tensor Int64 (Num (Fin 0))]"

definition plain_sample :: "tensor \<Rightarrow> tensor list" where
  "plain_sample gt_mask =
     sample_0 (Tensor Float32 (Arr [Num (Fin 0), Num (Fin 1)])) gt_mask gt_mask
       (Tensor Int64 (Arr [Num (Fin 0), Num (Fin 0)]))"

definition example_sample :: "tensor \<Rightarrow> tensor list" where
  "example_sample gt_mask =
     sample_0 (Tensor Float32 (Arr [Num (Fin 0), Num (Fin (1 / 2))])) gt_mask
       (Tensor Float32 (Arr [Arr [Num (Fin 1), Num (Fin 0)], Arr [Num (Fin 1), Num (Fin 0)]]))
       (Tensor Float32 (Arr [Num (Fin 0), Num (Fin 0)]))"

section \<open>Basic facts\<close>

lemma then_res_Inr_iff: "then_res r f = Inr v \<longleftrightarrow> (\<exists>a. r = Inr a \<and> f a = Inr v)"
  by (cases r) (simp_all add: then_res_def)

lemma then_res_simps: "then_res (Inl e) f = Inl e" "then_res (Inr a) f = f a"
  by (simp_all add: then_res_def)

lemma getitem_in_range:
  assumes "py_len a = Inr n" and "0 \<le> idx" and "idx < int n"
  shows "\<exists>x. getitem a idx = Inr x"
  using assms by (auto simp: py_len_def getitem_def split: nd.splits)


lemma tensor_getitem_Inr_iff:
  "tensor_getitem t idx = Inr x \<longleftrightarrow> fits_int64 idx \<and> getitem t idx = Inr x"
  by (simp add: tensor_getitem_def)

lemma index_tensor_Inr_iff:
  "index_tensor idx = Inr it \<longleftrightarrow>
     fits_int64 idx \<and> it = Tensor Int64 (Num (Fin (of_int idx)))"
  by (auto simp: index_tensor_def)

lemma dtype_of_to_dtype: "dtype_of (to_dtype d t) = d"
  by (simp add: to_dtype_def)

lemma load_float32_dtype: "load_float32 c k idx = Inr t \<Longrightarrow> dtype_of t = Float32"
  by (auto simp: load_float32_def then_res_Inr_iff dtype_of_to_dtype)


lemma same_shape_len:
  "same_shape a b \<Longrightarrow> py_len (Tensor d a) = py_len (Tensor e b)"
  "same_shape_rows xs ys \<Longrightarrow> length xs = length ys"
  by (induction a b and xs ys rule: same_shape_same_shape_rows.induct) (simp_all add: py_len_def)

lemma disjoint_masks_add:
  "disjoint_nd a b \<Longrightarrow> binary_nd a \<Longrightarrow> binary_nd b \<Longrightarrow>
     \<exists>c. pointwise add_scalar a b = Inr c \<and> pointwise or_scalar a b = Inr c \<and> binary_nd c"
  "disjoint_rows xs ys \<Longrightarrow> \<forall>x \<in> set xs. binary_nd x \<Longrightarrow> \<forall>y \<in> set ys. binary_nd y \<Longrightarrow>
     \<exists>zs. pointwise_rows add_scalar xs ys = Inr zs \<and> pointwise_rows or_scalar xs ys = Inr zs \<and>
          (\<forall>z \<in> set zs. binary_nd z)"
proof (induction a b and xs ys rule: disjoint_nd_disjoint_rows.induct)
  case (1 a b)
  then show ?case by (auto simp: or_scalar_def)
next
  case (2 xs ys)
  then show ?case by (auto simp: then_res_simps)
next
  case (6 x xs y ys)
  then show ?case by (auto simp: then_res_simps)
qed simp_all

section \<open>What a fetch returns\<close>

lemma fetch_array_state: "snd (fetch_data_from_array mcar rng self idx) = self"
  by (simp add: fetch_data_from_array_def)

lemma fetch_array_Inr_iff:
  "fst (fetch_data_from_array mcar rng self idx) = Inr s \<longleftrightarrow>
   (\<exists>x xi xm mm im om tp fpm cl.
      fits_int64 idx \<and>
      getitem (self_X self) idx = Inr x \<and>
      mcar rng (to_dtype Float32 x) (self_rate self) = (xi, xm, mm, im) \<and>
      tensor_add mm im = Inr om \<and>
      (if \<not> has_key (self_data self) ''time_points''
       then Inr (arange (self_n_steps self))
       else load_float32 (self_data self) ''time_points'' idx) = Inr tp \<and>
      (if \<not> has_key (self_data self) ''for_pattern_mask''
       then Inr mm
       else load_float32 (self_data self) ''for_pattern_mask'' idx) = Inr fpm \<and>
      (if \<not> has_key (self_data self) ''cut_length''
       then then_res (py_len xi) (\<lambda>n. Inr (to_dtype Int64 (zeros n)))
       else load_float32 (self_data self) ''cut_length'' idx) = Inr cl \<and>
      (case self_y self of
         None \<Rightarrow> Inr [Tensor Int64 (Num (Fin (of_int idx))), xi, om, tp, mm, fpm, cl]
       | Some y \<Rightarrow>
           if self_return_labels self
           then then_res (getitem y idx) (\<lambda>label.
                  Inr ([Tensor Int64 (Num (Fin (of_int idx))), xi, om, tp, mm, fpm, cl]
                       @ [to_dtype Int64 label]))
           else Inr [Tensor Int64 (Num (Fin (of_int idx))), xi, om, tp, mm, fpm, cl]) = Inr s)"
proof (cases "fits_int64 idx")
  case False
  then show ?thesis
    by (simp add: fetch_data_from_array_def tensor_getitem_def then_res_simps)
next
  case True
  then have t: "\<And>a. tensor_getitem a idx = getitem a idx"
    and i: "index_tensor idx = Inr (Tensor Int64 (Num (Fin (of_int idx))))"
    by (simp_all add: tensor_getitem_def index_tensor_def)
  show ?thesis
  proof (cases "getitem (self_X self) idx")
    case (Inl e)
    then show ?thesis by (simp add: fetch_data_from_array_def t then_res_simps)
  next
    case (Inr x)
    obtain xi xm mm im where "mcar rng (to_dtype Float32 x) (self_rate self) = (xi, xm, mm, im)"
      by (cases "mcar rng (to_dtype Float32 x) (self_rate self)") auto
    with Inr True show ?thesis
      by (simp add: fetch_data_from_array_def t i then_res_Inr_iff Let_def del: append.simps
               cong: option.case_cong if_cong)
  qed
qed

lemma fetch_file_state:
  "snd (fetch_data_from_file mcar rng self idx) =
     (case self_file_handle self of
        None \<Rightarrow> self\<lparr>self_file_handle := Some (open_file_handle self)\<rparr>
      | Some h \<Rightarrow> self)"
  by (simp add: fetch_data_from_file_def split: option.splits)

lemma fetch_file_Inr_iff:
  assumes "(case self_file_handle self of None \<Rightarrow> open_file_handle self | Some h' \<Rightarrow> h') = h"
  shows "fst (fetch_data_from_file mcar rng self idx) = Inr s \<longleftrightarrow>
   (\<exists>x xi xm mm im om tp fpm cl.
      load_float32 h ''X'' idx = Inr x \<and>
      mcar rng x (self_rate self) = (xi, xm, mm, im) \<and>
      tensor_add mm im = Inr om \<and>
      (if \<not> has_key h ''time_points''
       then Inr (arange (self_n_steps self))
       else load_float32 h ''time_points'' idx) = Inr tp \<and>
      (if \<not> has_key h ''for_pattern_mask''
       then Inr im
       else load_float32 h ''for_pattern_mask'' idx) = Inr fpm \<and>
      (if \<not> has_key h ''cut_length''
       then then_res (py_len xi) (\<lambda>n. Inr (to_dtype Int64 (zeros n)))
       else load_float32 h ''cut_length'' idx) = Inr cl \<and>
      fits_int64 idx \<and>
      (if has_key h ''y'' \<and> self_return_labels self
       then then_res (lookup h ''y'') (\<lambda>y.
            then_res (getitem y idx) (\<lambda>value.
            then_res (tensor_long value) (\<lambda>label.
              Inr ([Tensor Int64 (Num (Fin (of_int idx))), xi, om, tp, im, fpm, cl]
                   @ [label]))))
       else Inr [Tensor Int64 (Num (Fin (of_int idx))), xi, om, tp, im, fpm, cl]) = Inr s)"
proof (cases "load_float32 h ''X'' idx")
  case (Inl e)
  with assms show ?thesis
    by (auto simp: fetch_data_from_file_def then_res_simps split: option.splits)
next
  case (Inr x)
  obtain xi xm mm im where m: "mcar rng x (self_rate self) = (xi, xm, mm, im)"
    by (cases "mcar rng x (self_rate self)") auto
  show ?thesis
  proof (cases "fits_int64 idx")
    case False
    with Inr m assms show ?thesis
      by (cases "self_file_handle self")
         (simp_all add: fetch_data_from_file_def index_tensor_def then_res_Inr_iff Let_def)
  next
    case True
    then have i: "index_tensor idx = Inr (Tensor Int64 (Num (Fin (of_int idx))))"
      by (simp add: index_tensor_def)
    from Inr m assms True show ?thesis
      by (cases "self_file_handle self")
         (simp_all add: fetch_data_from_file_def i then_res_Inr_iff Let_def del: append.simps)
  qed
qed

lemma fetch_array_sample:
  assumes "fst (fetch_data_from_array mcar rng self idx) = Inr s"
  shows "\<exists>x xi xm mm im om tp fpm cl lbl.
      fits_int64 idx \<and>
      getitem (self_X self) idx = Inr x \<and>
      mcar rng (to_dtype Float32 x) (self_rate self) = (xi, xm, mm, im) \<and>
      tensor_add mm im = Inr om \<and>
      (if \<not> has_key (self_data self) ''time_points''
       then Inr (arange (self_n_steps self))
       else load_float32 (self_data self) ''time_points'' idx) = Inr tp \<and>
      (if \<not> has_key (self_data self) ''for_pattern_mask''
       then Inr mm
       else load_float32 (self_data self) ''for_pattern_mask'' idx) = Inr fpm \<and>
      (if \<not> has_key (self_data self) ''cut_length''
       then then_res (py_len xi) (\<lambda>n. Inr (to_dtype Int64 (zeros n)))
       else load_float32 (self_data self) ''cut_length'' idx) = Inr cl \<and>
      s = [Tensor Int64 (Num (Fin (of_int idx))), xi, om, tp, mm, fpm, cl] @ lbl \<and>
      (case self_y self of
         None \<Rightarrow> lbl = []
       | Some y \<Rightarrow>
           if self_return_labels self
           then \<exists>label. getitem y idx = Inr label \<and> lbl = [to_dtype Int64 label]
           else lbl = [])"
proof -
  from assms obtain x xi xm mm im om tp fpm cl where
    a: "fits_int64 idx"
       "getitem (self_X self) idx = Inr x"
       "mcar rng (to_dtype Float32 x) (self_rate self) = (xi, xm, mm, im)"
       "tensor_add mm im = Inr om"
       "(if \<not> has_key (self_data self) ''time_points''
         then Inr (arange (self_n_steps self))
         else load_float32 (self_data self) ''time_points'' idx) = Inr tp"
       "(if \<not> has_key (self_data self) ''for_pattern_mask''
         then Inr mm
         else load_float32 (self_data self) ''for_pattern_mask'' idx) = Inr fpm"
       "(if \<not> has_key (self_data self) ''cut_length''
         then then_res (py_len xi) (\<lambda>n. Inr (to_dtype Int64 (zeros n)))
         else load_float32 (self_data self) ''cut_length'' idx) = Inr cl"
    and b: "(case self_y self of
         None \<Rightarrow> Inr [Tensor Int64 (Num (Fin (of_int idx))), xi, om, tp, mm, fpm, cl]
       | Some y \<Rightarrow>
           if self_return_labels self
           then then_res (getitem y idx) (\<lambda>label.
                  Inr ([Tensor Int64 (Num (Fin (of_int idx))), xi, om, tp, mm, fpm, cl]
                       @ [to_dtype Int64 label]))
           else Inr [Tensor Int64 (Num (Fin (of_int idx))), xi, om, tp, mm, fpm, cl]) = Inr s"
    unfolding fetch_array_Inr_iff by blast
  from b have "\<exists>lbl. s = [Tensor Int64 (Num (Fin (of_int idx))), xi, om, tp, mm, fpm, cl] @ lbl \<and>
      (case self_y self of
         None \<Rightarrow> lbl = []
       | Some y \<Rightarrow>
           if self_return_labels self
           then \<exists>label. getitem y idx = Inr label \<and> lbl = [to_dtype Int64 label]
           else lbl = [])"
    by (auto simp: then_res_Inr_iff split: option.splits if_splits)
  with a show ?thesis by blast
qed

lemma fetch_file_sample:
  assumes "(case self_file_handle self of None \<Rightarrow> open_file_handle self | Some h' \<Rightarrow> h') = h"
    and "fst (fetch_data_from_file mcar rng self idx) = Inr s"
  shows "\<exists>x xi xm mm im om tp fpm cl lbl.
      load_float32 h ''X'' idx = Inr x \<and>
      mcar rng x (self_rate self) = (xi, xm, mm, im) \<and>
      tensor_add mm im = Inr om \<and>
      (if \<not> has_key h ''time_points''
       then Inr (arange (self_n_steps self))
       else load_float32 h ''time_points'' idx) = Inr tp \<and>
      (if \<not> has_key h ''for_pattern_mask''
       then Inr im
       else load_float32 h ''for_pattern_mask'' idx) = Inr fpm \<and>
      (if \<not> has_key h ''cut_length''
       then then_res (py_len xi) (\<lambda>n. Inr (to_dtype Int64 (zeros n)))
       else load_float32 h ''cut_length'' idx) = Inr cl \<and>
      fits_int64 idx \<and>
      s = [Tensor Int64 (Num (Fin (of_int idx))), xi, om, tp, im, fpm, cl] @ lbl \<and>
      (if has_key h ''y'' \<and> self_return_labels self
       then \<exists>y value label. lookup h ''y'' = Inr y \<and> getitem y idx = Inr value \<and>
                      tensor_long value = Inr label \<and> lbl = [label]
       else lbl = [])"
proof -
  from assms(2) obtain x xi xm mm im om tp fpm cl where
    a: "load_float32 h ''X'' idx = Inr x"
       "mcar rng x (self_rate self) = (xi, xm, mm, im)"
       "tensor_add mm im = Inr om"
       "(if \<not> has_key h ''time_points''
         then Inr (arange (self_n_steps self))
         else load_float32 h ''time_points'' idx) = Inr tp"
       "(if \<not> has_key h ''for_pattern_mask''
         then Inr im
         else load_float32 h ''for_pattern_mask'' idx) = Inr fpm"
       "(if \<not> has_key h ''cut_length''
         then then_res (py_len xi) (\<lambda>n. Inr (to_dtype Int64 (zeros n)))
         else load_float32 h ''cut_length'' idx) = Inr cl"
       "fits_int64 idx"
    and b: "(if has_key h ''y'' \<and> self_return_labels self
       then then_res (lookup h ''y'') (\<lambda>y.
            then_res (getitem y idx) (\<lambda>value.
            then_res (tensor_long value) (\<lambda>label.
              Inr ([Tensor Int64 (Num (Fin (of_int idx))), xi, om, tp, im, fpm, cl]
                   @ [label]))))
       else Inr [Tensor Int64 (Num (Fin (of_int idx))), xi, om, tp, im, fpm, cl]) = Inr s"
    unfolding fetch_file_Inr_iff [OF assms(1)] by blast
  from b have "\<exists>lbl. s = [Tensor Int64 (Num (Fin (of_int idx))), xi, om, tp, im, fpm, cl] @ lbl \<and>
      (if has_key h ''y'' \<and> self_return_labels self
       then \<exists>y value label. lookup h ''y'' = Inr y \<and> getitem y idx = Inr value \<and>
                      tensor_long value = Inr label \<and> lbl = [label]
       else lbl = [])"
    by (auto simp: then_res_Inr_iff split: if_splits)
  with a show ?thesis by blast
qed

lemma open_file_handle_update [simp]:
  "open_file_handle (self\<lparr>self_file_handle := v\<rparr>) = open_file_handle self"
  by (simp add: open_file_handle_def)

lemma fetch_file_handle_only:
  "fetch_data_from_file mcar rng (self\<lparr>self_file_handle := Some (open_file_handle self)\<rparr>) idx =
     (fst (fetch_data_from_file mcar rng (self\<lparr>self_file_handle := None\<rparr>) idx),
      self\<lparr>self_file_handle := Some (open_file_handle self)\<rparr>)"
  by (simp add: fetch_data_from_file_def)

lemma fetch_file_again:
  "fetch_data_from_file mcar rng2 (snd (fetch_data_from_file mcar rng1 self idx1)) idx2 =
     (fst (fetch_data_from_file mcar rng2 self idx2), snd (fetch_data_from_file mcar rng1 self idx1))"
  by (cases "self_file_handle self") (simp_all add: fetch_data_from_file_def)

lemma replace_masked_array:
  "fetch_data_from_array (replace_masked g mcar) rng self idx =
     fetch_data_from_array mcar rng self idx"
proof (cases "tensor_getitem (self_X self) idx")
  case (Inl e)
  then show ?thesis by (simp add: fetch_data_from_array_def then_res_simps)
next
  case (Inr x)
  obtain xi xm mm im where "mcar rng (to_dtype Float32 x) (self_rate self) = (xi, xm, mm, im)"
    by (cases "mcar rng (to_dtype Float32 x) (self_rate self)") auto
  with Inr show ?thesis
    by (simp add: fetch_data_from_array_def replace_masked_def then_res_simps)
qed

lemma replace_masked_file:
  "fetch_data_from_file (replace_masked g mcar) rng self idx =
     fetch_data_from_file mcar rng self idx"
proof -
  define h where "h = (case self_file_handle self of None \<Rightarrow> open_file_handle self | Some h' \<Rightarrow> h')"
  show ?thesis
  proof (cases "load_float32 h ''X'' idx")
    case (Inl e)
    then show ?thesis
      by (cases "self_file_handle self")
         (simp_all add: h_def fetch_data_from_file_def then_res_simps)
  next
    case (Inr x)
    obtain xi xm mm im where "mcar rng x (self_rate self) = (xi, xm, mm, im)"
      by (cases "mcar rng x (self_rate self)") auto
    with Inr show ?thesis
      by (cases "self_file_handle self")
         (simp_all add: h_def fetch_data_from_file_def replace_masked_def then_res_simps)
  qed
qed

lemma tensor_add_disjoint:
  assumes "binary_nd (vals mm)" and "binary_nd (vals im)" and "disjoint_nd (vals mm) (vals im)"
    and "tensor_add mm im = Inr om"
  shows "pointwise add_scalar (vals mm) (vals im) = Inr (vals om) \<and>
         pointwise or_scalar (vals mm) (vals im) = Inr (vals om) \<and> binary_nd (vals om)"
proof -
  from disjoint_masks_add(1) [OF assms(3,1,2)] obtain c where
    c: "pointwise add_scalar (vals mm) (vals im) = Inr c"
       "pointwise or_scalar (vals mm) (vals im) = Inr c" "binary_nd c"
    by blast
  with assms(4) have "vals om = c"
    by (auto simp: tensor_add_def then_res_simps)
  with c show ?thesis by simp
qed

lemma to_dtype_Int64_zeros: "to_dtype Int64 (zeros n) = Tensor Int64 (Arr (replicate n (Num (Fin 0))))"
  by (simp add: to_dtype_def zeros_def fits_int64_def truncate_real_def)

lemma py_len_same_shape: "same_shape (vals t) (vals u) \<Longrightarrow> py_len t = py_len u"
  using same_shape_len(1) [of "vals t" "vals u" "dtype_of t" "dtype_of u"] by simp

lemma py_len_to_dtype: "py_len (to_dtype d t) = py_len t"
  by (cases t) (auto simp: py_len_def to_dtype_def split: nd.splits)

lemma not_isl_iff: "\<not> isl r \<longleftrightarrow> (\<exists>v. r = Inr v)"
  by (cases r) simp_all

lemma tensor_add_contract:
  assumes "masker_contract x (xi, xm, mm, im)"
  shows "\<exists>om. tensor_add mm im = Inr om" and "py_len xi = py_len x"
proof -
  from assms have "disjoint_nd (vals mm) (vals im)" "binary_nd (vals mm)" "binary_nd (vals im)"
    and s: "same_shape (vals xi) (vals x)"
    by (simp_all add: masker_contract_def)
  from disjoint_masks_add(1) [OF this(1,2,3)]
  show "\<exists>om. tensor_add mm im = Inr om"
    by (auto simp: tensor_add_def then_res_simps)
  from s show "py_len xi = py_len x"
    by (rule py_len_same_shape)
qed

lemma fields_readable_iff:
  "fields_readable c idx \<longleftrightarrow>
     (has_key c ''time_points'' \<longrightarrow> (\<exists>t. load_float32 c ''time_points'' idx = Inr t)) \<and>
     (has_key c ''for_pattern_mask'' \<longrightarrow> (\<exists>t. load_float32 c ''for_pattern_mask'' idx = Inr t)) \<and>
     (has_key c ''cut_length'' \<longrightarrow> (\<exists>t. load_float32 c ''cut_length'' idx = Inr t))"
  by (simp add: fields_readable_def not_isl_iff)

lemma fetch_array_returns:
  assumes fits: "fits_int64 idx"
    and x: "getitem (self_X self) idx = Inr x"
    and len: "\<not> isl (py_len x)"
    and contract: "masker_contract (to_dtype Float32 x)
                     (mcar rng (to_dtype Float32 x) (self_rate self))"
    and fields: "fields_readable (self_data self) idx"
    and label: "case self_y self of None \<Rightarrow> True
                | Some y \<Rightarrow> self_return_labels self \<longrightarrow> \<not> isl (getitem y idx)"
  shows "\<exists>s. fst (fetch_data_from_array mcar rng self idx) = Inr s"
proof -
  obtain xi xm mm im where m: "mcar rng (to_dtype Float32 x) (self_rate self) = (xi, xm, mm, im)"
    by (cases "mcar rng (to_dtype Float32 x) (self_rate self)") auto
  from tensor_add_contract [OF contract [unfolded m]] obtain om where
    om: "tensor_add mm im = Inr om" and "py_len xi = py_len (to_dtype Float32 x)"
    by blast
  with len obtain n where n: "py_len xi = Inr n"
    by (auto simp: py_len_to_dtype not_isl_iff)
  from fields have "\<exists>tp. (if \<not> has_key (self_data self) ''time_points''
       then Inr (arange (self_n_steps self))
       else load_float32 (self_data self) ''time_points'' idx) = Inr tp"
    by (auto simp: fields_readable_iff)
  then obtain tp where tp: "(if \<not> has_key (self_data self) ''time_points''
       then Inr (arange (self_n_steps self))
       else load_float32 (self_data self) ''time_points'' idx) = Inr tp"
    by blast
  from fields have "\<exists>fpm. (if \<not> has_key (self_data self) ''for_pattern_mask''
       then Inr mm
       else load_float32 (self_data self) ''for_pattern_mask'' idx) = Inr fpm"
    by (auto simp: fields_readable_iff)
  then obtain fpm where fpm: "(if \<not> has_key (self_data self) ''for_pattern_mask''
       then Inr mm
       else load_float32 (self_data self) ''for_pattern_mask'' idx) = Inr fpm"
    by blast
  from fields n have "\<exists>cl. (if \<not> has_key (self_data self) ''cut_length''
       then then_res (py_len xi) (\<lambda>n. Inr (to_dtype Int64 (zeros n)))
       else load_float32 (self_data self) ''cut_length'' idx) = Inr cl"
    by (auto simp: fields_readable_iff then_res_simps)
  then obtain cl where cl: "(if \<not> has_key (self_data self) ''cut_length''
       then then_res (py_len xi) (\<lambda>n. Inr (to_dtype Int64 (zeros n)))
       else load_float32 (self_data self) ''cut_length'' idx) = Inr cl"
    by blast
  from label have "\<exists>s. (case self_y self of
         None \<Rightarrow> Inr [Tensor Int64 (Num (Fin (of_int idx))), xi, om, tp, mm, fpm, cl]
       | Some y \<Rightarrow>
           if self_return_labels self
           then then_res (getitem y idx) (\<lambda>label.
                  Inr ([Tensor Int64 (Num (Fin (of_int idx))), xi, om, tp, mm, fpm, cl]
                       @ [to_dtype Int64 label]))
           else Inr [Tensor Int64 (Num (Fin (of_int idx))), xi, om, tp, mm, fpm, cl]) = Inr s"
    by (cases "self_y self") (auto simp: not_isl_iff then_res_simps)
  then obtain s where "(case self_y self of
         None \<Rightarrow> Inr [Tensor Int64 (Num (Fin (of_int idx))), xi, om, tp, mm, fpm, cl]
       | Some y \<Rightarrow>
           if self_return_labels self
           then then_res (getitem y idx) (\<lambda>label.
                  Inr ([Tensor Int64 (Num (Fin (of_int idx))), xi, om, tp, mm, fpm, cl]
                       @ [to_dtype Int64 label]))
           else Inr [Tensor Int64 (Num (Fin (of_int idx))), xi, om, tp, mm, fpm, cl]) = Inr s"
    by blast
  with fits x m om tp fpm cl show ?thesis
    unfolding fetch_array_Inr_iff by blast
qed

lemma from_numpy_len: "from_numpy a = Inr t \<Longrightarrow> \<exists>n. py_len t = Inr n"
  by (auto simp: from_numpy_def py_len_def split: nd.splits)

lemma load_float32_len: "load_float32 c k idx = Inr t \<Longrightarrow> \<exists>n. py_len t = Inr n"
  by (auto simp: load_float32_def then_res_Inr_iff py_len_to_dtype dest: from_numpy_len)

lemma fetch_file_returns:
  assumes h: "(case self_file_handle self of None \<Rightarrow> open_file_handle self | Some h' \<Rightarrow> h') = h"
    and x: "load_float32 h ''X'' idx = Inr x"
    and contract: "masker_contract x (mcar rng x (self_rate self))"
    and fields: "fields_readable h idx"
    and fits: "fits_int64 idx"
    and label: "has_key h ''y'' \<and> self_return_labels self \<longrightarrow>
                  \<not> isl (then_res (lookup h ''y'') (\<lambda>y.
                         then_res (getitem y idx) tensor_long))"
  shows "\<exists>s. fst (fetch_data_from_file mcar rng self idx) = Inr s"
proof -
  obtain xi xm mm im where m: "mcar rng x (self_rate self) = (xi, xm, mm, im)"
    by (cases "mcar rng x (self_rate self)") auto
  from tensor_add_contract [OF contract [unfolded m]] obtain om where
    om: "tensor_add mm im = Inr om" and "py_len xi = py_len x"
    by blast
  with load_float32_len [OF x] obtain n where n: "py_len xi = Inr n"
    by auto
  from fields have "\<exists>tp. (if \<not> has_key h ''time_points''
       then Inr (arange (self_n_steps self))
       else load_float32 h ''time_points'' idx) = Inr tp"
    by (auto simp: fields_readable_iff)
  then obtain tp where tp: "(if \<not> has_key h ''time_points''
       then Inr (arange (self_n_steps self))
       else load_float32 h ''time_points'' idx) = Inr tp"
    by blast
  from fields have "\<exists>fpm. (if \<not> has_key h ''for_pattern_mask''
       then Inr im
       else load_float32 h ''for_pattern_mask'' idx) = Inr fpm"
    by (auto simp: fields_readable_iff)
  then obtain fpm where fpm: "(if \<not> has_key h ''for_pattern_mask''
       then Inr im
       else load_float32 h ''for_pattern_mask'' idx) = Inr fpm"
    by blast
  from fields n have "\<exists>cl. (if \<not> has_key h ''cut_length''
       then then_res (py_len xi) (\<lambda>n. Inr (to_dtype Int64 (zeros n)))
       else load_float32 h ''cut_length'' idx) = Inr cl"
    by (auto simp: fields_readable_iff then_res_simps)
  then obtain cl where cl: "(if \<not> has_key h ''cut_length''
       then then_res (py_len xi) (\<lambda>n. Inr (to_dtype Int64 (zeros n)))
       else load_float32 h ''cut_length'' idx) = Inr cl"
    by blast
  from label have "\<exists>s. (if has_key h ''y'' \<and> self_return_labels self
       then then_res (lookup h ''y'') (\<lambda>y.
            then_res (getitem y idx) (\<lambda>value.
            then_res (tensor_long value) (\<lambda>label.
              Inr ([Tensor Int64 (Num (Fin (of_int idx))), xi, om, tp, im, fpm, cl]
                   @ [label]))))
       else Inr [Tensor Int64 (Num (Fin (of_int idx))), xi, om, tp, im, fpm, cl]) = Inr s"
    by (cases "has_key h ''y'' \<and> self_return_labels self")
       (auto simp: not_isl_iff then_res_Inr_iff)
  then obtain s where "(if has_key h ''y'' \<and> self_return_labels self
       then then_res (lookup h ''y'') (\<lambda>y.
            then_res (getitem y idx) (\<lambda>value.
            then_res (tensor_long value) (\<lambda>label.
              Inr ([Tensor Int64 (Num (Fin (of_int idx))), xi, om, tp, im, fpm, cl]
                   @ [label]))))
       else Inr [Tensor Int64 (Num (Fin (of_int idx))), xi, om, tp, im, fpm, cl]) = Inr s"
    by blast
  with fits x m om tp fpm cl show ?thesis
    unfolding fetch_file_Inr_iff [OF h] by blast
qed

section \<open>The claims\<close>

text \<open>
  Claim C1. Whenever a fetch returns a sample, its \<open>gt_mask\<close> (element 4) is, on the
  in-memory path, the missing mask that the masker returned for the series at the
  index (its third result), and, on the file-backed path, the indicating mask (its
  fourth result).
\<close>

theorem gt_mask_by_storage_mode:
  "(fst (fetch_data_from_array mcar rng self idx) = Inr s \<and>
    getitem (self_X self) idx = Inr x \<longrightarrow>
      (case mcar rng (to_dtype Float32 x) (self_rate self) of
         (X_intact, X_masked, missing_mask, indicating_mask) \<Rightarrow> s ! 4 = missing_mask)) \<and>
   (fst (fetch_data_from_file mcar rng self' idx') = Inr s' \<and>
    load_float32 (case self_file_handle self' of None \<Rightarrow> open_file_handle self' | Some h \<Rightarrow> h)
      ''X'' idx' = Inr x' \<longrightarrow>
      (case mcar rng x' (self_rate self') of
         (X_intact, X_masked, missing_mask, indicating_mask) \<Rightarrow> s' ! 4 = indicating_mask))"
proof (intro conjI impI; elim conjE)
  assume "fst (fetch_data_from_array mcar rng self idx) = Inr s"
    and "getitem (self_X self) idx = Inr x"
  then show "case mcar rng (to_dtype Float32 x) (self_rate self) of
         (X_intact, X_masked, missing_mask, indicating_mask) \<Rightarrow> s ! 4 = missing_mask"
    by (auto dest!: fetch_array_sample)
next
  assume "fst (fetch_data_from_file mcar rng self' idx') = Inr s'"
    and "load_float32 (case self_file_handle self' of None \<Rightarrow> open_file_handle self' | Some h \<Rightarrow> h)
      ''X'' idx' = Inr x'"
  then show "case mcar rng x' (self_rate self') of
         (X_intact, X_masked, missing_mask, indicating_mask) \<Rightarrow> s' ! 4 = indicating_mask"
    by (auto dest!: fetch_file_sample [OF refl])
qed

theorem gt_mask_by_storage_mode_witness:
  "fst (fetch_data_from_array mcar_ref [2, 0, 1, 3] in_memory_plain 0) =
     Inr (plain_sample missing_mask_hide_2) \<and>
   getitem (self_X in_memory_plain) 0 = Inr series_0 \<and>
   mcar_ref [2, 0, 1, 3] (to_dtype Float32 series_0) (self_rate in_memory_plain) =
     (intact_0, masked_0_hide_2, missing_mask_hide_2, indicating_mask_hide_2) \<and>
   plain_sample missing_mask_hide_2 ! 4 = missing_mask_hide_2 \<and>
   fst (fetch_data_from_file mcar_ref [2, 0, 1, 3] file_plain 0) =
     Inr (plain_sample indicating_mask_hide_2) \<and>
   load_float32 (case self_file_handle file_plain of
                   None \<Rightarrow> open_file_handle file_plain | Some h \<Rightarrow> h) ''X'' 0 =
     Inr series_0_float32 \<and>
   mcar_ref [2, 0, 1, 3] series_0_float32 (self_rate file_plain) =
     (intact_0, masked_0_hide_2, missing_mask_hide_2, indicating_mask_hide_2) \<and>
   plain_sample indicating_mask_hide_2 ! 4 = indicating_mask_hide_2"
proof -
  have a: "fst (fetch_data_from_array mcar_ref [2, 0, 1, 3] in_memory_plain 0) =
      Inr (plain_sample missing_mask_hide_2) \<and>
    getitem (self_X in_memory_plain) 0 = Inr series_0"
    by code_simp
  have b: "mcar_ref [2, 0, 1, 3] (to_dtype Float32 series_0) (self_rate in_memory_plain) =
     (intact_0, masked_0_hide_2, missing_mask_hide_2, indicating_mask_hide_2)"
    by code_simp
  have c: "fst (fetch_data_from_file mcar_ref [2, 0, 1, 3] file_plain 0) =
      Inr (plain_sample indicating_mask_hide_2) \<and>
    load_float32 (case self_file_handle file_plain of
                   None \<Rightarrow> open_file_handle file_plain | Some h \<Rightarrow> h) ''X'' 0 =
     Inr series_0_float32"
    by code_simp
  have d: "mcar_ref [2, 0, 1, 3] series_0_float32 (self_rate file_plain) =
     (intact_0, masked_0_hide_2, missing_mask_hide_2, indicating_mask_hide_2)"
    by code_simp
  from gt_mask_by_storage_mode [where mcar = mcar_ref and rng = "[2, 0, 1, 3]"
      and self = in_memory_plain and idx = 0
      and s = "plain_sample missing_mask_hide_2" and x = series_0
      and self' = file_plain and idx' = 0
      and s' = "plain_sample indicating_mask_hide_2" and x' = series_0_float32]
    a b c d
  show ?thesis by simp
qed

text \<open>
  Claim C2. Whenever a fetch returns a sample, its first seven elements are, in this
  order, the index, \<open>observed_data\<close> (the masker's \<open>X_intact\<close>), \<open>observed_mask\<close> (the sum
  of the two masks), \<open>time_points\<close>, \<open>gt_mask\<close>, \<open>for_pattern_mask\<close> and \<open>cut_length\<close>,
  each resolved as the source has or lacks its field. The sample has length 8, with
  the label converted to an integer type as its last element, when the source has
  labels and \<open>return_labels\<close> is set, and length 7 otherwise. And a fetch does return a
  sample when the index has a series with steps and fits a 64-bit integer, the masker
  keeps its contract on that series, the optional fields of the source can be read at
  the index, and where a label is to be returned it can be read and, on the
  file-backed path, converted. This holds on both paths.
\<close>

theorem sample_layout:
  "(fst (fetch_data_from_array mcar rng self idx) = Inr s \<longrightarrow>
      (\<exists>x xi xm mm im om tp fpm cl.
         getitem (self_X self) idx = Inr x \<and>
         mcar rng (to_dtype Float32 x) (self_rate self) = (xi, xm, mm, im) \<and>
         tensor_add mm im = Inr om \<and>
         (if \<not> has_key (self_data self) ''time_points''
          then Inr (arange (self_n_steps self))
          else load_float32 (self_data self) ''time_points'' idx) = Inr tp \<and>
         (if \<not> has_key (self_data self) ''for_pattern_mask''
          then Inr mm
          else load_float32 (self_data self) ''for_pattern_mask'' idx) = Inr fpm \<and>
         (if \<not> has_key (self_data self) ''cut_length''
          then then_res (py_len xi) (\<lambda>n. Inr (to_dtype Int64 (zeros n)))
          else load_float32 (self_data self) ''cut_length'' idx) = Inr cl \<and>
         take 7 s = [Tensor Int64 (Num (Fin (of_int idx))), xi, om, tp, mm, fpm, cl] \<and>
         (if self_y self \<noteq> None \<and> self_return_labels self
          then length s = 8 \<and>
               (\<exists>y label. self_y self = Some y \<and> getitem y idx = Inr label \<and>
                          last s = to_dtype Int64 label)
          else length s = 7))) \<and>
   (fst (fetch_data_from_file mcar rng self' idx') = Inr s' \<and>
    (case self_file_handle self' of None \<Rightarrow> open_file_handle self' | Some h' \<Rightarrow> h') = h \<longrightarrow>
      (\<exists>x xi xm mm im om tp fpm cl.
         load_float32 h ''X'' idx' = Inr x \<and>
         mcar rng x (self_rate self') = (xi, xm, mm, im) \<and>
         tensor_add mm im = Inr om \<and>
         (if \<not> has_key h ''time_points''
          then Inr (arange (self_n_steps self'))
          else load_float32 h ''time_points'' idx') = Inr tp \<and>
         (if \<not> has_key h ''for_pattern_mask''
          then Inr im
          else load_float32 h ''for_pattern_mask'' idx') = Inr fpm \<and>
         (if \<not> has_key h ''cut_length''
          then then_res (py_len xi) (\<lambda>n. Inr (to_dtype Int64 (zeros n)))
          else load_float32 h ''cut_length'' idx') = Inr cl \<and>
         take 7 s' = [Tensor Int64 (Num (Fin (of_int idx'))), xi, om, tp, im, fpm, cl] \<and>
         (if has_key h ''y'' \<and> self_return_labels self'
          then length s' = 8 \<and>
               (\<exists>y value. lookup h ''y'' = Inr y \<and> getitem y idx' = Inr value \<and>
                          tensor_long value = Inr (last s'))
          else length s' = 7))) \<and>
   (tensor_getitem (self_X self) idx = Inr x0 \<and> \<not> isl (py_len x0) \<and>
    masker_contract (to_dtype Float32 x0) (mcar rng (to_dtype Float32 x0) (self_rate self)) \<and>
    fields_readable (self_data self) idx \<and>
    (case self_y self of None \<Rightarrow> True
     | Some y \<Rightarrow> self_return_labels self \<longrightarrow> \<not> isl (getitem y idx)) \<longrightarrow>
      \<not> isl (fst (fetch_data_from_array mcar rng self idx))) \<and>
   ((case self_file_handle self' of None \<Rightarrow> open_file_handle self' | Some h' \<Rightarrow> h') = h \<and>
    load_float32 h ''X'' idx' = Inr x0' \<and>
    masker_contract x0' (mcar rng x0' (self_rate self')) \<and>
    fields_readable h idx' \<and> fits_int64 idx' \<and>
    (has_key h ''y'' \<and> self_return_labels self' \<longrightarrow>
       \<not> isl (then_res (lookup h ''y'') (\<lambda>y. then_res (getitem y idx') tensor_long))) \<longrightarrow>
      \<not> isl (fst (fetch_data_from_file mcar rng self' idx')))"
proof (intro conjI impI; (elim conjE)?)
  assume "fst (fetch_data_from_array mcar rng self idx) = Inr s"
  from fetch_array_sample [OF this] obtain x xi xm mm im om tp fpm cl lbl where
    a: "getitem (self_X self) idx = Inr x"
       "mcar rng (to_dtype Float32 x) (self_rate self) = (xi, xm, mm, im)"
       "tensor_add mm im = Inr om"
       "(if \<not> has_key (self_data self) ''time_points''
          then Inr (arange (self_n_steps self))
          else load_float32 (self_data self) ''time_points'' idx) = Inr tp"
       "(if \<not> has_key (self_data self) ''for_pattern_mask''
          then Inr mm
          else load_float32 (self_data self) ''for_pattern_mask'' idx) = Inr fpm"
       "(if \<not> has_key (self_data self) ''cut_length''
          then then_res (py_len xi) (\<lambda>n. Inr (to_dtype Int64 (zeros n)))
          else load_float32 (self_data self) ''cut_length'' idx) = Inr cl"
    and s: "s = [Tensor Int64 (Num (Fin (of_int idx))), xi, om, tp, mm, fpm, cl] @ lbl"
    and l: "case self_y self of
         None \<Rightarrow> lbl = []
       | Some y \<Rightarrow>
           if self_return_labels self
           then \<exists>label. getitem y idx = Inr label \<and> lbl = [to_dtype Int64 label]
           else lbl = []"
    by blast
  from s have t: "take 7 s = [Tensor Int64 (Num (Fin (of_int idx))), xi, om, tp, mm, fpm, cl]"
    by simp
  from s l have "if self_y self \<noteq> None \<and> self_return_labels self
          then length s = 8 \<and>
               (\<exists>y label. self_y self = Some y \<and> getitem y idx = Inr label \<and>
                          last s = to_dtype Int64 label)
          else length s = 7"
    by (cases "self_y self") auto
  with a t show "\<exists>x xi xm mm im om tp fpm cl.
         getitem (self_X self) idx = Inr x \<and>
         mcar rng (to_dtype Float32 x) (self_rate self) = (xi, xm, mm, im) \<and>
         tensor_add mm im = Inr om \<and>
         (if \<not> has_key (self_data self) ''time_points''
          then Inr (arange (self_n_steps self))
          else load_float32 (self_data self) ''time_points'' idx) = Inr tp \<and>
         (if \<not> has_key (self_data self) ''for_pattern_mask''
          then Inr mm
          else load_float32 (self_data self) ''for_pattern_mask'' idx) = Inr fpm \<and>
         (if \<not> has_key (self_data self) ''cut_length''
          then then_res (py_len xi) (\<lambda>n. Inr (to_dtype Int64 (zeros n)))
          else load_float32 (self_data self) ''cut_length'' idx) = Inr cl \<and>
         take 7 s = [Tensor Int64 (Num (Fin (of_int idx))), xi, om, tp, mm, fpm, cl] \<and>
         (if self_y self \<noteq> None \<and> self_return_labels self
          then length s = 8 \<and>
               (\<exists>y label. self_y self = Some y \<and> getitem y idx = Inr label \<and>
                          last s = to_dtype Int64 label)
          else length s = 7)"
    by blast
next
  assume "fst (fetch_data_from_file mcar rng self' idx') = Inr s'"
    and h: "(case self_file_handle self' of None \<Rightarrow> open_file_handle self' | Some h' \<Rightarrow> h') = h"
  from fetch_file_sample [OF h this(1)] obtain x xi xm mm im om tp fpm cl lbl where
    a: "load_float32 h ''X'' idx' = Inr x"
       "mcar rng x (self_rate self') = (xi, xm, mm, im)"
       "tensor_add mm im = Inr om"
       "(if \<not> has_key h ''time_points''
          then Inr (arange (self_n_steps self'))
          else load_float32 h ''time_points'' idx') = Inr tp"
       "(if \<not> has_key h ''for_pattern_mask''
          then Inr im
          else load_float32 h ''for_pattern_mask'' idx') = Inr fpm"
       "(if \<not> has_key h ''cut_length''
          then then_res (py_len xi) (\<lambda>n. Inr (to_dtype Int64 (zeros n)))
          else load_float32 h ''cut_length'' idx') = Inr cl"
    and s: "s' = [Tensor Int64 (Num (Fin (of_int idx'))), xi, om, tp, im, fpm, cl] @ lbl"
    and l: "if has_key h ''y'' \<and> self_return_labels self'
       then \<exists>y value label. lookup h ''y'' = Inr y \<and> getitem y idx' = Inr value \<and>
                      tensor_long value = Inr label \<and> lbl = [label]
       else lbl = []"
    by blast
  from s have t: "take 7 s' = [Tensor Int64 (Num (Fin (of_int idx'))), xi, om, tp, im, fpm, cl]"
    by simp
  from s l have "if has_key h ''y'' \<and> self_return_labels self'
          then length s' = 8 \<and>
               (\<exists>y value. lookup h ''y'' = Inr y \<and> getitem y idx' = Inr value \<and>
                          tensor_long value = Inr (last s'))
          else length s' = 7"
    by (cases "has_key h ''y'' \<and> self_return_labels self'") auto
  with a t show "\<exists>x xi xm mm im om tp fpm cl.
         load_float32 h ''X'' idx' = Inr x \<and>
         mcar rng x (self_rate self') = (xi, xm, mm, im) \<and>
         tensor_add mm im = Inr om \<and>
         (if \<not> has_key h ''time_points''
          then Inr (arange (self_n_steps self'))
          else load_float32 h ''time_points'' idx') = Inr tp \<and>
         (if \<not> has_key h ''for_pattern_mask''
          then Inr im
          else load_float32 h ''for_pattern_mask'' idx') = Inr fpm \<and>
         (if \<not> has_key h ''cut_length''
          then then_res (py_len xi) (\<lambda>n. Inr (to_dtype Int64 (zeros n)))
          else load_float32 h ''cut_length'' idx') = Inr cl \<and>
         take 7 s' = [Tensor Int64 (Num (Fin (of_int idx'))), xi, om, tp, im, fpm, cl] \<and>
         (if has_key h ''y'' \<and> self_return_labels self'
          then length s' = 8 \<and>
               (\<exists>y value. lookup h ''y'' = Inr y \<and> getitem y idx' = Inr value \<and>
                          tensor_long value = Inr (last s'))
          else length s' = 7)"
    by blast
next
  assume "tensor_getitem (self_X self) idx = Inr x0"
  then have "fits_int64 idx" and "getitem (self_X self) idx = Inr x0"
    by (simp_all add: tensor_getitem_Inr_iff)
  moreover assume "\<not> isl (py_len x0)"
    and "masker_contract (to_dtype Float32 x0) (mcar rng (to_dtype Float32 x0) (self_rate self))"
    and "fields_readable (self_data self) idx"
    and "case self_y self of None \<Rightarrow> True
         | Some y \<Rightarrow> self_return_labels self \<longrightarrow> \<not> isl (getitem y idx)"
  ultimately have "\<exists>s. fst (fetch_data_from_array mcar rng self idx) = Inr s"
    by (rule fetch_array_returns)
  then
  show "\<not> isl (fst (fetch_data_from_array mcar rng self idx))"
    by (simp add: not_isl_iff)
next
  assume "(case self_file_handle self' of None \<Rightarrow> open_file_handle self' | Some h' \<Rightarrow> h') = h"
    and "load_float32 h ''X'' idx' = Inr x0'"
    and "masker_contract x0' (mcar rng x0' (self_rate self'))"
    and "fields_readable h idx'" and "fits_int64 idx'"
    and "has_key h ''y'' \<and> self_return_labels self' \<longrightarrow>
           \<not> isl (then_res (lookup h ''y'') (\<lambda>y. then_res (getitem y idx') tensor_long))"
  from fetch_file_returns [where mcar = mcar and rng = rng, OF this]
  show "\<not> isl (fst (fetch_data_from_file mcar rng self' idx'))"
    by (simp add: not_isl_iff)
qed

theorem sample_layout_witness:
  "fst (fetch_data_from_array mcar_ref [2, 0, 1, 3] in_memory_plain 0) =
     Inr (plain_sample missing_mask_hide_2) \<and>
   self_y in_memory_plain \<noteq> None \<and> self_return_labels in_memory_plain \<and>
   length (plain_sample missing_mask_hide_2) = 8 \<and>
   fst (fetch_data_from_array mcar_ref [2, 0, 1, 3]
          (in_memory_plain\<lparr>self_return_labels := False\<rparr>) 0) =
     Inr (take 7 (plain_sample missing_mask_hide_2)) \<and>
   length (take 7 (plain_sample missing_mask_hide_2)) = 7 \<and>
   fst (fetch_data_from_file mcar_ref [2, 0, 1, 3] file_plain 0) =
     Inr (plain_sample indicating_mask_hide_2) \<and>
   (case self_file_handle file_plain of None \<Rightarrow> open_file_handle file_plain | Some h' \<Rightarrow> h') =
     plain_fields \<and>
   has_key plain_fields ''y'' \<and> self_return_labels file_plain \<and>
   length (plain_sample indicating_mask_hide_2) = 8 \<and>
   fst (fetch_data_from_file mcar_ref [2, 0, 1, 3]
          (file_plain\<lparr>self_return_labels := False\<rparr>) 0) =
     Inr (take 7 (plain_sample indicating_mask_hide_2)) \<and>
   length (take 7 (plain_sample indicating_mask_hide_2)) = 7 \<and>
   tensor_getitem (self_X in_memory_example) 0 = Inr series_0 \<and> \<not> isl (py_len series_0) \<and>
   masker_contract (to_dtype Float32 series_0)
     (mcar_ref [2, 0, 1, 3] (to_dtype Float32 series_0) (self_rate in_memory_example)) \<and>
   self_data in_memory_example = example_fields \<and>
   \<not> isl (load_float32 example_fields ''time_points'' 0) \<and>
   \<not> isl (load_float32 example_fields ''for_pattern_mask'' 0) \<and>
   \<not> isl (load_float32 example_fields ''cut_length'' 0) \<and>
   self_y in_memory_example = Some example_y \<and> \<not> isl (getitem example_y 0) \<and>
   \<not> isl (fst (fetch_data_from_array mcar_ref [2, 0, 1, 3] in_memory_example 0)) \<and>
   (case self_file_handle file_example of None \<Rightarrow> open_file_handle file_example | Some h' \<Rightarrow> h') =
     example_fields \<and>
   load_float32 example_fields ''X'' 0 = Inr series_0_float32 \<and>
   masker_contract series_0_float32
     (mcar_ref [2, 0, 1, 3] series_0_float32 (self_rate file_example)) \<and>
   fits_int64 0 \<and>
   \<not> isl (then_res (lookup example_fields ''y'') (\<lambda>y. then_res (getitem y 0) tensor_long)) \<and>
   \<not> isl (fst (fetch_data_from_file mcar_ref [2, 0, 1, 3] file_example 0))"
proof -
  have a: "fst (fetch_data_from_array mcar_ref [2, 0, 1, 3] in_memory_plain 0) =
      Inr (plain_sample missing_mask_hide_2)"
    "self_y in_memory_plain \<noteq> None \<and> self_return_labels in_memory_plain"
    by code_simp+
  have a': "fst (fetch_data_from_array mcar_ref [2, 0, 1, 3]
          (in_memory_plain\<lparr>self_return_labels := False\<rparr>) 0) =
      Inr (take 7 (plain_sample missing_mask_hide_2))"
    "\<not> (self_y (in_memory_plain\<lparr>self_return_labels := False\<rparr>) \<noteq> None \<and>
        self_return_labels (in_memory_plain\<lparr>self_return_labels := False\<rparr>))"
    by code_simp+
  have b: "fst (fetch_data_from_file mcar_ref [2, 0, 1, 3] file_plain 0) =
      Inr (plain_sample indicating_mask_hide_2)"
    "(case self_file_handle file_plain of None \<Rightarrow> open_file_handle file_plain | Some h' \<Rightarrow> h') =
      plain_fields"
    "has_key plain_fields ''y'' \<and> self_return_labels file_plain"
    by code_simp+
  have b': "fst (fetch_data_from_file mcar_ref [2, 0, 1, 3]
          (file_plain\<lparr>self_return_labels := False\<rparr>) 0) =
      Inr (take 7 (plain_sample indicating_mask_hide_2))"
    "(case self_file_handle (file_plain\<lparr>self_return_labels := False\<rparr>) of
        None \<Rightarrow> open_file_handle (file_plain\<lparr>self_return_labels := False\<rparr>)
      | Some h' \<Rightarrow> h') = plain_fields"
    "\<not> (has_key plain_fields ''y'' \<and>
        self_return_labels (file_plain\<lparr>self_return_labels := False\<rparr>))"
    by code_simp+
  have c: "tensor_getitem (self_X in_memory_example) 0 = Inr series_0" "\<not> isl (py_len series_0)"
    "masker_contract (to_dtype Float32 series_0)
       (mcar_ref [2, 0, 1, 3] (to_dtype Float32 series_0) (self_rate in_memory_example))"
    "self_data in_memory_example = example_fields"
    "self_y in_memory_example = Some example_y" "\<not> isl (getitem example_y 0)"
    by code_simp+
  have r: "\<not> isl (load_float32 example_fields ''time_points'' 0)"
    "\<not> isl (load_float32 example_fields ''for_pattern_mask'' 0)"
    "\<not> isl (load_float32 example_fields ''cut_length'' 0)"
    by code_simp+
  then have f: "fields_readable example_fields 0"
    by (simp add: fields_readable_def)
  have d: "(case self_file_handle file_example of
              None \<Rightarrow> open_file_handle file_example | Some h' \<Rightarrow> h') = example_fields"
    "load_float32 example_fields ''X'' 0 = Inr series_0_float32"
    "masker_contract series_0_float32
       (mcar_ref [2, 0, 1, 3] series_0_float32 (self_rate file_example))"
    "fits_int64 0"
    "\<not> isl (then_res (lookup example_fields ''y'') (\<lambda>y. then_res (getitem y 0) tensor_long))"
    by code_simp+
  note requested = sample_layout [where mcar = mcar_ref and rng = "[2, 0, 1, 3]"
      and self = in_memory_plain and idx = 0 and s = "plain_sample missing_mask_hide_2"
      and self' = file_plain and idx' = 0 and s' = "plain_sample indicating_mask_hide_2"
      and h = plain_fields and ?x0.0 = series_0 and x0' = series_0_float32]
  note not_requested = sample_layout [where mcar = mcar_ref and rng = "[2, 0, 1, 3]"
      and self = "in_memory_plain\<lparr>self_return_labels := False\<rparr>" and idx = 0
      and s = "take 7 (plain_sample missing_mask_hide_2)"
      and self' = "file_plain\<lparr>self_return_labels := False\<rparr>" and idx' = 0
      and s' = "take 7 (plain_sample indicating_mask_hide_2)"
      and h = plain_fields and ?x0.0 = series_0 and x0' = series_0_float32]
  note readable = sample_layout [where mcar = mcar_ref and rng = "[2, 0, 1, 3]"
      and self = in_memory_example and idx = 0 and s = "[]"
      and self' = file_example and idx' = 0 and s' = "[]"
      and h = example_fields and ?x0.0 = series_0 and x0' = series_0_float32]
  from requested a have 1: "length (plain_sample missing_mask_hide_2) = 8"
    by (auto split: if_splits)
  from requested b have 2: "length (plain_sample indicating_mask_hide_2) = 8"
    by (auto split: if_splits)
  from not_requested a' have 3: "length (take 7 (plain_sample missing_mask_hide_2)) = 7"
    by (auto split: if_splits)
  from not_requested b' have 4: "length (take 7 (plain_sample indicating_mask_hide_2)) = 7"
    by (auto split: if_splits)
  from c f have "case self_y in_memory_example of None \<Rightarrow> True
     | Some y \<Rightarrow> self_return_labels in_memory_example \<longrightarrow> \<not> isl (getitem y 0)"
    and "fields_readable (self_data in_memory_example) 0"
    by simp_all
  with readable c have 5:
    "\<not> isl (fst (fetch_data_from_array mcar_ref [2, 0, 1, 3] in_memory_example 0))"
    by blast
  from readable d f have 6:
    "\<not> isl (fst (fetch_data_from_file mcar_ref [2, 0, 1, 3] file_example 0))"
    by blast
  from a a'(1) b b'(1) c r d 1 2 3 4 5 6 show ?thesis by blast
qed

text \<open>
  Claim C3. Whenever a fetch returns a sample and the two masks that the masker returned
  are binary and disjoint, the \<open>observed_mask\<close> (element 2) is their sum entry by entry,
  which is also their logical OR entry by entry, and all its entries are 0 or 1. This
  holds on both paths.
\<close>

theorem observed_mask_is_sum_and_or:
  "(fst (fetch_data_from_array mcar rng self idx) = Inr s \<and>
    getitem (self_X self) idx = Inr x \<and>
    mcar rng (to_dtype Float32 x) (self_rate self) = (xi, xm, mm, im) \<and>
    binary_nd (vals mm) \<and> binary_nd (vals im) \<and> disjoint_nd (vals mm) (vals im) \<longrightarrow>
      tensor_add mm im = Inr (s ! 2) \<and>
      pointwise add_scalar (vals mm) (vals im) = Inr (vals (s ! 2)) \<and>
      pointwise or_scalar (vals mm) (vals im) = Inr (vals (s ! 2)) \<and>
      binary_nd (vals (s ! 2))) \<and>
   (fst (fetch_data_from_file mcar rng self' idx') = Inr s' \<and>
    load_float32 (case self_file_handle self' of None \<Rightarrow> open_file_handle self' | Some h \<Rightarrow> h)
      ''X'' idx' = Inr x' \<and>
    mcar rng x' (self_rate self') = (xi', xm', mm', im') \<and>
    binary_nd (vals mm') \<and> binary_nd (vals im') \<and> disjoint_nd (vals mm') (vals im') \<longrightarrow>
      tensor_add mm' im' = Inr (s' ! 2) \<and>
      pointwise add_scalar (vals mm') (vals im') = Inr (vals (s' ! 2)) \<and>
      pointwise or_scalar (vals mm') (vals im') = Inr (vals (s' ! 2)) \<and>
      binary_nd (vals (s' ! 2)))"
proof (intro conjI impI; elim conjE)
  assume a: "fst (fetch_data_from_array mcar rng self idx) = Inr s"
    "getitem (self_X self) idx = Inr x"
    "mcar rng (to_dtype Float32 x) (self_rate self) = (xi, xm, mm, im)"
    and b: "binary_nd (vals mm)" "binary_nd (vals im)" "disjoint_nd (vals mm) (vals im)"
  from a show t: "tensor_add mm im = Inr (s ! 2)"
    by (auto dest!: fetch_array_sample)
  from tensor_add_disjoint [OF b t]
  show "pointwise add_scalar (vals mm) (vals im) = Inr (vals (s ! 2))"
    and "pointwise or_scalar (vals mm) (vals im) = Inr (vals (s ! 2))"
    and "binary_nd (vals (s ! 2))"
    by simp_all
next
  assume a: "fst (fetch_data_from_file mcar rng self' idx') = Inr s'"
    "load_float32 (case self_file_handle self' of None \<Rightarrow> open_file_handle self' | Some h \<Rightarrow> h)
      ''X'' idx' = Inr x'"
    "mcar rng x' (self_rate self') = (xi', xm', mm', im')"
    and b: "binary_nd (vals mm')" "binary_nd (vals im')" "disjoint_nd (vals mm') (vals im')"
  from a show t: "tensor_add mm' im' = Inr (s' ! 2)"
    by (auto dest!: fetch_file_sample [OF refl])
  from tensor_add_disjoint [OF b t]
  show "pointwise add_scalar (vals mm') (vals im') = Inr (vals (s' ! 2))"
    and "pointwise or_scalar (vals mm') (vals im') = Inr (vals (s' ! 2))"
    and "binary_nd (vals (s' ! 2))"
    by simp_all
qed

theorem observed_mask_is_sum_and_or_witness:
  "fst (fetch_data_from_array mcar_ref [2, 0, 1, 3] in_memory_plain 0) =
     Inr (plain_sample missing_mask_hide_2) \<and>
   getitem (self_X in_memory_plain) 0 = Inr series_0 \<and>
   mcar_ref [2, 0, 1, 3] (to_dtype Float32 series_0) (self_rate in_memory_plain) =
     (intact_0, masked_0_hide_2, missing_mask_hide_2, indicating_mask_hide_2) \<and>
   binary_nd (vals missing_mask_hide_2) \<and> binary_nd (vals indicating_mask_hide_2) \<and>
   disjoint_nd (vals missing_mask_hide_2) (vals indicating_mask_hide_2) \<and>
   tensor_add missing_mask_hide_2 indicating_mask_hide_2 =
     Inr (plain_sample missing_mask_hide_2 ! 2) \<and>
   pointwise or_scalar (vals missing_mask_hide_2) (vals indicating_mask_hide_2) =
     Inr (vals (plain_sample missing_mask_hide_2 ! 2)) \<and>
   binary_nd (vals (plain_sample missing_mask_hide_2 ! 2)) \<and>
   fst (fetch_data_from_file mcar_ref [2, 0, 1, 3] file_plain 0) =
     Inr (plain_sample indicating_mask_hide_2) \<and>
   load_float32 (case self_file_handle file_plain of
                   None \<Rightarrow> open_file_handle file_plain | Some h \<Rightarrow> h) ''X'' 0 =
     Inr series_0_float32 \<and>
   mcar_ref [2, 0, 1, 3] series_0_float32 (self_rate file_plain) =
     (intact_0, masked_0_hide_2, missing_mask_hide_2, indicating_mask_hide_2) \<and>
   tensor_add missing_mask_hide_2 indicating_mask_hide_2 =
     Inr (plain_sample indicating_mask_hide_2 ! 2) \<and>
   pointwise or_scalar (vals missing_mask_hide_2) (vals indicating_mask_hide_2) =
     Inr (vals (plain_sample indicating_mask_hide_2 ! 2)) \<and>
   binary_nd (vals (plain_sample indicating_mask_hide_2 ! 2))"
proof -
  have a: "fst (fetch_data_from_array mcar_ref [2, 0, 1, 3] in_memory_plain 0) =
      Inr (plain_sample missing_mask_hide_2) \<and>
    getitem (self_X in_memory_plain) 0 = Inr series_0"
    by code_simp
  have b: "mcar_ref [2, 0, 1, 3] (to_dtype Float32 series_0) (self_rate in_memory_plain) =
     (intact_0, masked_0_hide_2, missing_mask_hide_2, indicating_mask_hide_2)"
    by code_simp
  have c: "binary_nd (vals missing_mask_hide_2) \<and> binary_nd (vals indicating_mask_hide_2) \<and>
    disjoint_nd (vals missing_mask_hide_2) (vals indicating_mask_hide_2)"
    by code_simp
  have d: "fst (fetch_data_from_file mcar_ref [2, 0, 1, 3] file_plain 0) =
      Inr (plain_sample indicating_mask_hide_2) \<and>
    load_float32 (case self_file_handle file_plain of
                   None \<Rightarrow> open_file_handle file_plain | Some h \<Rightarrow> h) ''X'' 0 =
     Inr series_0_float32"
    by code_simp
  have e: "mcar_ref [2, 0, 1, 3] series_0_float32 (self_rate file_plain) =
     (intact_0, masked_0_hide_2, missing_mask_hide_2, indicating_mask_hide_2)"
    by code_simp
  from observed_mask_is_sum_and_or [where mcar = mcar_ref and rng = "[2, 0, 1, 3]"
      and self = in_memory_plain and idx = 0
      and s = "plain_sample missing_mask_hide_2" and x = series_0
      and xi = intact_0 and xm = masked_0_hide_2
      and mm = missing_mask_hide_2 and im = indicating_mask_hide_2
      and self' = file_plain and idx' = 0
      and s' = "plain_sample indicating_mask_hide_2" and x' = series_0_float32
      and xi' = intact_0 and xm' = masked_0_hide_2
      and mm' = missing_mask_hide_2 and im' = indicating_mask_hide_2]
    a b c d e
  show ?thesis by blast
qed

text \<open>
  Claim C6. Whenever a fetch returns a sample from a source without a
  \<open>for_pattern_mask\<close> field, the \<open>for_pattern_mask\<close> of the sample (element 5) is its
  \<open>gt_mask\<close> (element 4). This holds on both paths.
\<close>

theorem for_pattern_mask_default:
  "(fst (fetch_data_from_array mcar rng self idx) = Inr s \<and>
    \<not> has_key (self_data self) ''for_pattern_mask'' \<longrightarrow> s ! 5 = s ! 4) \<and>
   (fst (fetch_data_from_file mcar rng self' idx') = Inr s' \<and>
    \<not> has_key (case self_file_handle self' of None \<Rightarrow> open_file_handle self' | Some h \<Rightarrow> h)
        ''for_pattern_mask'' \<longrightarrow> s' ! 5 = s' ! 4)"
proof (intro conjI impI; elim conjE)
  assume "fst (fetch_data_from_array mcar rng self idx) = Inr s"
    and "\<not> has_key (self_data self) ''for_pattern_mask''"
  then show "s ! 5 = s ! 4"
    by (auto dest!: fetch_array_sample)
next
  assume "fst (fetch_data_from_file mcar rng self' idx') = Inr s'"
    and "\<not> has_key (case self_file_handle self' of None \<Rightarrow> open_file_handle self' | Some h \<Rightarrow> h)
        ''for_pattern_mask''"
  then show "s' ! 5 = s' ! 4"
    by (auto dest!: fetch_file_sample [OF refl])
qed

theorem for_pattern_mask_default_witness:
  "fst (fetch_data_from_array mcar_ref [2, 0, 1, 3] in_memory_plain 0) =
     Inr (plain_sample missing_mask_hide_2) \<and>
   \<not> has_key (self_data in_memory_plain) ''for_pattern_mask'' \<and>
   plain_sample missing_mask_hide_2 ! 5 =
     plain_sample missing_mask_hide_2 ! 4 \<and>
   fst (fetch_data_from_file mcar_ref [2, 0, 1, 3] file_plain 0) =
     Inr (plain_sample indicating_mask_hide_2) \<and>
   \<not> has_key (case self_file_handle file_plain of
                 None \<Rightarrow> open_file_handle file_plain | Some h \<Rightarrow> h) ''for_pattern_mask'' \<and>
   plain_sample indicating_mask_hide_2 ! 5 =
     plain_sample indicating_mask_hide_2 ! 4"
proof -
  have a: "fst (fetch_data_from_array mcar_ref [2, 0, 1, 3] in_memory_plain 0) =
      Inr (plain_sample missing_mask_hide_2) \<and>
    \<not> has_key (self_data in_memory_plain) ''for_pattern_mask''"
    by code_simp
  have b: "fst (fetch_data_from_file mcar_ref [2, 0, 1, 3] file_plain 0) =
      Inr (plain_sample indicating_mask_hide_2) \<and>
    \<not> has_key (case self_file_handle file_plain of
                 None \<Rightarrow> open_file_handle file_plain | Some h \<Rightarrow> h) ''for_pattern_mask''"
    by code_simp
  from for_pattern_mask_default [where mcar = mcar_ref and rng = "[2, 0, 1, 3]"
      and self = in_memory_plain and idx = 0
      and s = "plain_sample missing_mask_hide_2"
      and self' = file_plain and idx' = 0
      and s' = "plain_sample indicating_mask_hide_2"]
    a b
  show ?thesis by blast
qed

text \<open>
  Claim C7. Whenever a fetch returns a sample from a source without a \<open>time_points\<close>
  field, the \<open>time_points\<close> of the sample (element 3) is the float32 vector
  \<open>0, 1, ..., n_steps - 1\<close>, of length \<open>n_steps\<close>. This holds on both paths.
\<close>

theorem time_points_default:
  "(fst (fetch_data_from_array mcar rng self idx) = Inr s \<and>
    \<not> has_key (self_data self) ''time_points'' \<longrightarrow>
      s ! 3 = Tensor Float32 (Arr (map (\<lambda>k. Num (Fin (real k))) [0..<self_n_steps self])) \<and>
      py_len (s ! 3) = Inr (self_n_steps self)) \<and>
   (fst (fetch_data_from_file mcar rng self' idx') = Inr s' \<and>
    \<not> has_key (case self_file_handle self' of None \<Rightarrow> open_file_handle self' | Some h \<Rightarrow> h)
        ''time_points'' \<longrightarrow>
      s' ! 3 = Tensor Float32 (Arr (map (\<lambda>k. Num (Fin (real k))) [0..<self_n_steps self'])) \<and>
      py_len (s' ! 3) = Inr (self_n_steps self'))"
proof (intro conjI impI; elim conjE)
  assume "fst (fetch_data_from_array mcar rng self idx) = Inr s"
    and "\<not> has_key (self_data self) ''time_points''"
  then show "s ! 3 = Tensor Float32 (Arr (map (\<lambda>k. Num (Fin (real k))) [0..<self_n_steps self]))"
    by (auto dest!: fetch_array_sample simp: arange_def)
  then show "py_len (s ! 3) = Inr (self_n_steps self)"
    by (simp add: py_len_def)
next
  assume "fst (fetch_data_from_file mcar rng self' idx') = Inr s'"
    and "\<not> has_key (case self_file_handle self' of None \<Rightarrow> open_file_handle self' | Some h \<Rightarrow> h)
        ''time_points''"
  then show "s' ! 3 = Tensor Float32 (Arr (map (\<lambda>k. Num (Fin (real k))) [0..<self_n_steps self']))"
    by (auto dest!: fetch_file_sample [OF refl] simp: arange_def)
  then show "py_len (s' ! 3) = Inr (self_n_steps self')"
    by (simp add: py_len_def)
qed

theorem time_points_default_witness:
  "fst (fetch_data_from_array mcar_ref [2, 0, 1, 3] in_memory_plain 0) =
     Inr (plain_sample missing_mask_hide_2) \<and>
   \<not> has_key (self_data in_memory_plain) ''time_points'' \<and>
   plain_sample missing_mask_hide_2 ! 3 =
     Tensor Float32 (Arr (map (\<lambda>k. Num (Fin (real k))) [0..<self_n_steps in_memory_plain])) \<and>
   py_len (plain_sample missing_mask_hide_2 ! 3) =
     Inr (self_n_steps in_memory_plain) \<and>
   fst (fetch_data_from_file mcar_ref [2, 0, 1, 3] file_plain 0) =
     Inr (plain_sample indicating_mask_hide_2) \<and>
   \<not> has_key (case self_file_handle file_plain of
                 None \<Rightarrow> open_file_handle file_plain | Some h \<Rightarrow> h) ''time_points'' \<and>
   plain_sample indicating_mask_hide_2 ! 3 =
     Tensor Float32 (Arr (map (\<lambda>k. Num (Fin (real k))) [0..<self_n_steps file_plain])) \<and>
   py_len (plain_sample indicating_mask_hide_2 ! 3) = Inr (self_n_steps file_plain)"
proof -
  have a: "fst (fetch_data_from_array mcar_ref [2, 0, 1, 3] in_memory_plain 0) =
      Inr (plain_sample missing_mask_hide_2) \<and>
    \<not> has_key (self_data in_memory_plain) ''time_points''"
    by code_simp
  have b: "fst (fetch_data_from_file mcar_ref [2, 0, 1, 3] file_plain 0) =
      Inr (plain_sample indicating_mask_hide_2) \<and>
    \<not> has_key (case self_file_handle file_plain of
                 None \<Rightarrow> open_file_handle file_plain | Some h \<Rightarrow> h) ''time_points''"
    by code_simp
  from time_points_default [where mcar = mcar_ref and rng = "[2, 0, 1, 3]"
      and self = in_memory_plain and idx = 0
      and s = "plain_sample missing_mask_hide_2"
      and self' = file_plain and idx' = 0
      and s' = "plain_sample indicating_mask_hide_2"]
    a b
  show ?thesis by blast
qed




text \<open>
  Claim C9. A fetch on the in-memory path leaves the dataset as it was. A fetch on the
  file-backed path changes nothing but the file handle, which it sets when it is None
  and keeps otherwise; a second fetch leaves the dataset of the first as it is, so
  the handle is reused. What a later fetch returns does not depend on the earlier
  fetch: nothing of a sample is kept.
\<close>

theorem fetch_changes_only_file_handle:
  "snd (fetch_data_from_array mcar rng self idx) = self \<and>
   snd (fetch_data_from_file mcar rng self idx) =
     (case self_file_handle self of
        None \<Rightarrow> self\<lparr>self_file_handle := Some (open_file_handle self)\<rparr>
      | Some h \<Rightarrow> self) \<and>
   snd (fetch_data_from_file mcar rng2 (snd (fetch_data_from_file mcar rng self idx)) idx2) =
     snd (fetch_data_from_file mcar rng self idx) \<and>
   fst (fetch_data_from_file mcar rng2 (snd (fetch_data_from_file mcar rng self idx)) idx2) =
     fst (fetch_data_from_file mcar rng2 self idx2) \<and>
   fst (fetch_data_from_array mcar rng2 (snd (fetch_data_from_array mcar rng self idx)) idx2) =
     fst (fetch_data_from_array mcar rng2 self idx2)"
proof (intro conjI)
  show "snd (fetch_data_from_array mcar rng self idx) = self"
    by (rule fetch_array_state)
  show "snd (fetch_data_from_file mcar rng self idx) =
     (case self_file_handle self of
        None \<Rightarrow> self\<lparr>self_file_handle := Some (open_file_handle self)\<rparr>
      | Some h \<Rightarrow> self)"
    by (rule fetch_file_state)
  show "snd (fetch_data_from_file mcar rng2 (snd (fetch_data_from_file mcar rng self idx)) idx2) =
     snd (fetch_data_from_file mcar rng self idx)"
    by (simp only: fetch_file_again snd_conv)
  show "fst (fetch_data_from_file mcar rng2 (snd (fetch_data_from_file mcar rng self idx)) idx2) =
     fst (fetch_data_from_file mcar rng2 self idx2)"
    by (simp only: fetch_file_again fst_conv)
  show "fst (fetch_data_from_array mcar rng2 (snd (fetch_data_from_array mcar rng self idx)) idx2) =
     fst (fetch_data_from_array mcar rng2 self idx2)"
    by (simp only: fetch_array_state)
qed

text \<open>
  Claim C10. The artificially-masked series that the masker returns has no influence on
  a fetch: replacing it by anything else gives the same result and the same dataset,
  on both paths. The \<open>observed_data\<close> of a returned sample (element 1) is the
  \<open>X_intact\<close> of the masker.
\<close>

theorem masked_series_discarded:
  "fetch_data_from_array (replace_masked g mcar) rng self idx =
     fetch_data_from_array mcar rng self idx \<and>
   fetch_data_from_file (replace_masked g mcar) rng self' idx' =
     fetch_data_from_file mcar rng self' idx' \<and>
   (fst (fetch_data_from_array mcar rng self idx) = Inr s \<and>
    getitem (self_X self) idx = Inr x \<longrightarrow>
      s ! 1 = fst (mcar rng (to_dtype Float32 x) (self_rate self))) \<and>
   (fst (fetch_data_from_file mcar rng self' idx') = Inr s' \<and>
    load_float32 (case self_file_handle self' of None \<Rightarrow> open_file_handle self' | Some h \<Rightarrow> h)
      ''X'' idx' = Inr x' \<longrightarrow>
      s' ! 1 = fst (mcar rng x' (self_rate self')))"
proof (intro conjI impI; (elim conjE)?)
  show "fetch_data_from_array (replace_masked g mcar) rng self idx =
     fetch_data_from_array mcar rng self idx"
    by (rule replace_masked_array)
  show "fetch_data_from_file (replace_masked g mcar) rng self' idx' =
     fetch_data_from_file mcar rng self' idx'"
    by (rule replace_masked_file)
next
  assume "fst (fetch_data_from_array mcar rng self idx) = Inr s"
    and "getitem (self_X self) idx = Inr x"
  then show "s ! 1 = fst (mcar rng (to_dtype Float32 x) (self_rate self))"
    by (auto dest!: fetch_array_sample)
next
  assume "fst (fetch_data_from_file mcar rng self' idx') = Inr s'"
    and "load_float32 (case self_file_handle self' of None \<Rightarrow> open_file_handle self' | Some h \<Rightarrow> h)
      ''X'' idx' = Inr x'"
  then show "s' ! 1 = fst (mcar rng x' (self_rate self'))"
    by (auto dest!: fetch_file_sample [OF refl])
qed

theorem masked_series_discarded_witness:
  "fst (fetch_data_from_array mcar_ref [2, 0, 1, 3] in_memory_plain 0) =
     Inr (plain_sample missing_mask_hide_2) \<and>
   getitem (self_X in_memory_plain) 0 = Inr series_0 \<and>
   plain_sample missing_mask_hide_2 ! 1 =
     fst (mcar_ref [2, 0, 1, 3] (to_dtype Float32 series_0) (self_rate in_memory_plain)) \<and>
   fst (fetch_data_from_file mcar_ref [2, 0, 1, 3] file_plain 0) =
     Inr (plain_sample indicating_mask_hide_2) \<and>
   load_float32 (case self_file_handle file_plain of
                   None \<Rightarrow> open_file_handle file_plain | Some h \<Rightarrow> h) ''X'' 0 =
     Inr series_0_float32 \<and>
   plain_sample indicating_mask_hide_2 ! 1 =
     fst (mcar_ref [2, 0, 1, 3] series_0_float32 (self_rate file_plain)) \<and>
   fst (snd (mcar_ref [2, 0, 1, 3] series_0_float32 (1 / 2))) = masked_0_hide_2 \<and>
   masked_0_hide_2 \<notin> set (plain_sample missing_mask_hide_2) \<and>
   masked_0_hide_2 \<notin> set (plain_sample indicating_mask_hide_2)"
proof -
  have a: "fst (fetch_data_from_array mcar_ref [2, 0, 1, 3] in_memory_plain 0) =
      Inr (plain_sample missing_mask_hide_2) \<and>
    getitem (self_X in_memory_plain) 0 = Inr series_0"
    by code_simp
  have b: "fst (fetch_data_from_file mcar_ref [2, 0, 1, 3] file_plain 0) =
      Inr (plain_sample indicating_mask_hide_2) \<and>
    load_float32 (case self_file_handle file_plain of
                   None \<Rightarrow> open_file_handle file_plain | Some h \<Rightarrow> h) ''X'' 0 =
     Inr series_0_float32"
    by code_simp
  have c: "fst (snd (mcar_ref [2, 0, 1, 3] series_0_float32 (1 / 2))) = masked_0_hide_2 \<and>
    masked_0_hide_2 \<notin> set (plain_sample missing_mask_hide_2) \<and>
    masked_0_hide_2 \<notin> set (plain_sample indicating_mask_hide_2)"
    by code_simp
  from masked_series_discarded [where mcar = mcar_ref and rng = "[2, 0, 1, 3]"
      and self = in_memory_plain and idx = 0
      and s = "plain_sample missing_mask_hide_2" and x = series_0
      and self' = file_plain and idx' = 0
      and s' = "plain_sample indicating_mask_hide_2" and x' = series_0_float32]
    a b c
  show ?thesis by blast
qed

text \<open>
  Claim C4, as stated, fails: without a \<open>for_pattern_mask\<close> field the
  \<open>for_pattern_mask\<close> of a sample is its \<open>gt_mask\<close>, which the masker draws anew at every
  fetch. Two fetches of index 0 from the same in-memory dataset, with two outcomes of
  the random choice, return different \<open>for_pattern_mask\<close>s.
\<close>

theorem for_pattern_mask_default_varies_counterexample:
  "\<not> has_key (self_data in_memory_plain) ''for_pattern_mask'' \<and>
   fetch_data_from_array mcar_ref [2, 0, 1, 3] in_memory_plain 0 =
     (Inr (plain_sample missing_mask_hide_2), in_memory_plain) \<and>
   fetch_data_from_array mcar_ref [0, 2, 1, 3] in_memory_plain 0 =
     (Inr (plain_sample missing_mask_hide_0), in_memory_plain) \<and>
   plain_sample missing_mask_hide_2 ! 5 \<noteq>
     plain_sample missing_mask_hide_0 ! 5"
  by code_simp

text \<open>
  Claim C4, amended. Two consecutive fetches of one index that both return a sample
  return samples of one length that agree on the index (element 0), on the label (what
  follows the seventh element) and on \<open>time_points\<close> (element 3); on \<open>for_pattern_mask\<close>
  (element 5) when the source has that field, while without it each
  \<open>for_pattern_mask\<close> is the \<open>gt_mask\<close> of its own sample; and on \<open>cut_length\<close>
  (element 6) when the source has that field or the two \<open>observed_data\<close> have the same
  length. So only \<open>observed_data\<close> and the masks may differ, the default of
  \<open>for_pattern_mask\<close> being one of the masks. This holds on both paths.
\<close>

theorem consecutive_fetches_agree:
  "(fst (fetch_data_from_array mcar rng1 self idx) = Inr s1 \<and>
    fst (fetch_data_from_array mcar rng2
           (snd (fetch_data_from_array mcar rng1 self idx)) idx) = Inr s2 \<longrightarrow>
      s1 ! 0 = s2 ! 0 \<and> length s1 = length s2 \<and> drop 7 s1 = drop 7 s2 \<and>
      s1 ! 3 = s2 ! 3 \<and>
      (has_key (self_data self) ''for_pattern_mask'' \<longrightarrow> s1 ! 5 = s2 ! 5) \<and>
      (\<not> has_key (self_data self) ''for_pattern_mask'' \<longrightarrow> s1 ! 5 = s1 ! 4 \<and> s2 ! 5 = s2 ! 4) \<and>
      (has_key (self_data self) ''cut_length'' \<or> py_len (s1 ! 1) = py_len (s2 ! 1) \<longrightarrow>
         s1 ! 6 = s2 ! 6)) \<and>
   (fst (fetch_data_from_file mcar rng1 self' idx') = Inr s1' \<and>
    fst (fetch_data_from_file mcar rng2
           (snd (fetch_data_from_file mcar rng1 self' idx')) idx') = Inr s2' \<and>
    (case self_file_handle self' of None \<Rightarrow> open_file_handle self' | Some h' \<Rightarrow> h') = h \<longrightarrow>
      s1' ! 0 = s2' ! 0 \<and> length s1' = length s2' \<and> drop 7 s1' = drop 7 s2' \<and>
      s1' ! 3 = s2' ! 3 \<and>
      (has_key h ''for_pattern_mask'' \<longrightarrow> s1' ! 5 = s2' ! 5) \<and>
      (\<not> has_key h ''for_pattern_mask'' \<longrightarrow> s1' ! 5 = s1' ! 4 \<and> s2' ! 5 = s2' ! 4) \<and>
      (has_key h ''cut_length'' \<or> py_len (s1' ! 1) = py_len (s2' ! 1) \<longrightarrow>
         s1' ! 6 = s2' ! 6))"
proof (intro conjI impI; (elim conjE)?)
  assume a: "fst (fetch_data_from_array mcar rng1 self idx) = Inr s1"
    and "fst (fetch_data_from_array mcar rng2
           (snd (fetch_data_from_array mcar rng1 self idx)) idx) = Inr s2"
  then have b: "fst (fetch_data_from_array mcar rng2 self idx) = Inr s2"
    by (simp only: fetch_array_state)
  note A = fetch_array_sample [OF a] and B = fetch_array_sample [OF b]
  from A B show "s1 ! 0 = s2 ! 0" by auto
  from A B have "drop 7 s1 = drop 7 s2"
    by (cases "self_y self") (auto split: if_splits)
  moreover from A B have "length (take 7 s1) = length (take 7 s2)" by auto
  ultimately show "length s1 = length s2" and "drop 7 s1 = drop 7 s2"
    by (metis append_take_drop_id length_append, simp)
  from A B show "s1 ! 3 = s2 ! 3" by auto
  { assume "has_key (self_data self) ''for_pattern_mask''"
    with A B show "s1 ! 5 = s2 ! 5" by auto }
  { assume "\<not> has_key (self_data self) ''for_pattern_mask''"
    with A show "s1 ! 5 = s1 ! 4" by auto }
  { assume "\<not> has_key (self_data self) ''for_pattern_mask''"
    with B show "s2 ! 5 = s2 ! 4" by auto }
  { assume "has_key (self_data self) ''cut_length'' \<or> py_len (s1 ! 1) = py_len (s2 ! 1)"
    with A B show "s1 ! 6 = s2 ! 6" by (auto simp: then_res_Inr_iff split: if_splits) }
next
  assume a: "fst (fetch_data_from_file mcar rng1 self' idx') = Inr s1'"
    and "fst (fetch_data_from_file mcar rng2
           (snd (fetch_data_from_file mcar rng1 self' idx')) idx') = Inr s2'"
    and h: "(case self_file_handle self' of None \<Rightarrow> open_file_handle self' | Some h' \<Rightarrow> h') = h"
  then have b: "fst (fetch_data_from_file mcar rng2 self' idx') = Inr s2'"
    by (simp only: fetch_file_again fst_conv)
  note A = fetch_file_sample [OF h a] and B = fetch_file_sample [OF h b]
  from A B show "s1' ! 0 = s2' ! 0" by auto
  from A B have "drop 7 s1' = drop 7 s2'"
    by (cases "has_key h ''y'' \<and> self_return_labels self'") auto
  moreover from A B have "length (take 7 s1') = length (take 7 s2')" by auto
  ultimately show "length s1' = length s2'" and "drop 7 s1' = drop 7 s2'"
    by (metis append_take_drop_id length_append, simp)
  from A B show "s1' ! 3 = s2' ! 3" by auto
  { assume "has_key h ''for_pattern_mask''"
    with A B show "s1' ! 5 = s2' ! 5" by auto }
  { assume "\<not> has_key h ''for_pattern_mask''"
    with A show "s1' ! 5 = s1' ! 4" by auto }
  { assume "\<not> has_key h ''for_pattern_mask''"
    with B show "s2' ! 5 = s2' ! 4" by auto }
  { assume "has_key h ''cut_length'' \<or> py_len (s1' ! 1) = py_len (s2' ! 1)"
    with A B show "s1' ! 6 = s2' ! 6" by (auto simp: then_res_Inr_iff split: if_splits) }
qed

theorem consecutive_fetches_agree_witness:
  "fst (fetch_data_from_array mcar_ref [2, 0, 1, 3] in_memory_plain 0) =
     Inr (plain_sample missing_mask_hide_2) \<and>
   fst (fetch_data_from_array mcar_ref [0, 2, 1, 3]
          (snd (fetch_data_from_array mcar_ref [2, 0, 1, 3] in_memory_plain 0)) 0) =
     Inr (plain_sample missing_mask_hide_0) \<and>
   \<not> has_key (self_data in_memory_plain) ''for_pattern_mask'' \<and>
   py_len (plain_sample missing_mask_hide_2 ! 1) = py_len (plain_sample missing_mask_hide_0 ! 1) \<and>
   plain_sample missing_mask_hide_2 ! 0 = plain_sample missing_mask_hide_0 ! 0 \<and>
   length (plain_sample missing_mask_hide_2) = length (plain_sample missing_mask_hide_0) \<and>
   drop 7 (plain_sample missing_mask_hide_2) = drop 7 (plain_sample missing_mask_hide_0) \<and>
   plain_sample missing_mask_hide_2 ! 3 = plain_sample missing_mask_hide_0 ! 3 \<and>
   plain_sample missing_mask_hide_2 ! 5 = plain_sample missing_mask_hide_2 ! 4 \<and>
   plain_sample missing_mask_hide_0 ! 5 = plain_sample missing_mask_hide_0 ! 4 \<and>
   plain_sample missing_mask_hide_2 ! 6 = plain_sample missing_mask_hide_0 ! 6 \<and>
   fst (fetch_data_from_file mcar_ref [2, 0, 1, 3] file_example 0) =
     Inr (example_sample indicating_mask_hide_2) \<and>
   fst (fetch_data_from_file mcar_ref [0, 2, 1, 3]
          (snd (fetch_data_from_file mcar_ref [2, 0, 1, 3] file_example 0)) 0) =
     Inr (example_sample indicating_mask_hide_0) \<and>
   (case self_file_handle file_example of None \<Rightarrow> open_file_handle file_example | Some h' \<Rightarrow> h') =
     example_fields \<and>
   has_key example_fields ''for_pattern_mask'' \<and>
   has_key example_fields ''cut_length'' \<and>
   example_sample indicating_mask_hide_2 ! 0 = example_sample indicating_mask_hide_0 ! 0 \<and>
   length (example_sample indicating_mask_hide_2) =
     length (example_sample indicating_mask_hide_0) \<and>
   drop 7 (example_sample indicating_mask_hide_2) =
     drop 7 (example_sample indicating_mask_hide_0) \<and>
   example_sample indicating_mask_hide_2 ! 3 = example_sample indicating_mask_hide_0 ! 3 \<and>
   example_sample indicating_mask_hide_2 ! 5 = example_sample indicating_mask_hide_0 ! 5 \<and>
   example_sample indicating_mask_hide_2 ! 6 = example_sample indicating_mask_hide_0 ! 6"
proof -
  have a: "fst (fetch_data_from_array mcar_ref [2, 0, 1, 3] in_memory_plain 0) =
      Inr (plain_sample missing_mask_hide_2)"
    "fst (fetch_data_from_array mcar_ref [0, 2, 1, 3]
          (snd (fetch_data_from_array mcar_ref [2, 0, 1, 3] in_memory_plain 0)) 0) =
      Inr (plain_sample missing_mask_hide_0)"
    "\<not> has_key (self_data in_memory_plain) ''for_pattern_mask''"
    "py_len (plain_sample missing_mask_hide_2 ! 1) = py_len (plain_sample missing_mask_hide_0 ! 1)"
    by code_simp+
  have b: "fst (fetch_data_from_file mcar_ref [2, 0, 1, 3] file_example 0) =
      Inr (example_sample indicating_mask_hide_2)"
    "fst (fetch_data_from_file mcar_ref [0, 2, 1, 3]
          (snd (fetch_data_from_file mcar_ref [2, 0, 1, 3] file_example 0)) 0) =
      Inr (example_sample indicating_mask_hide_0)"
    "(case self_file_handle file_example of None \<Rightarrow> open_file_handle file_example | Some h' \<Rightarrow> h') =
      example_fields"
    "has_key example_fields ''for_pattern_mask''"
    "has_key example_fields ''cut_length''"
    by code_simp+
  note t = consecutive_fetches_agree [where mcar = mcar_ref
      and ?rng1.0 = "[2, 0, 1, 3]" and ?rng2.0 = "[0, 2, 1, 3]"
      and self = in_memory_plain and idx = 0
      and ?s1.0 = "plain_sample missing_mask_hide_2" and ?s2.0 = "plain_sample missing_mask_hide_0"
      and self' = file_example and idx' = 0 and h = example_fields
      and s1' = "example_sample indicating_mask_hide_2"
      and s2' = "example_sample indicating_mask_hide_0"]
  from t a have 1:
    "plain_sample missing_mask_hide_2 ! 0 = plain_sample missing_mask_hide_0 ! 0 \<and>
     length (plain_sample missing_mask_hide_2) = length (plain_sample missing_mask_hide_0) \<and>
     drop 7 (plain_sample missing_mask_hide_2) = drop 7 (plain_sample missing_mask_hide_0) \<and>
     plain_sample missing_mask_hide_2 ! 3 = plain_sample missing_mask_hide_0 ! 3 \<and>
     plain_sample missing_mask_hide_2 ! 5 = plain_sample missing_mask_hide_2 ! 4 \<and>
     plain_sample missing_mask_hide_0 ! 5 = plain_sample missing_mask_hide_0 ! 4 \<and>
     plain_sample missing_mask_hide_2 ! 6 = plain_sample missing_mask_hide_0 ! 6"
    by blast
  from t b have 2:
    "example_sample indicating_mask_hide_2 ! 0 = example_sample indicating_mask_hide_0 ! 0 \<and>
     length (example_sample indicating_mask_hide_2) =
       length (example_sample indicating_mask_hide_0) \<and>
     drop 7 (example_sample indicating_mask_hide_2) =
       drop 7 (example_sample indicating_mask_hide_0) \<and>
     example_sample indicating_mask_hide_2 ! 3 = example_sample indicating_mask_hide_0 ! 3 \<and>
     example_sample indicating_mask_hide_2 ! 5 = example_sample indicating_mask_hide_0 ! 5 \<and>
     example_sample indicating_mask_hide_2 ! 6 = example_sample indicating_mask_hide_0 ! 6"
    by blast
  from a b 1 2 show ?thesis by blast
qed

text \<open>
  Claim C5, as stated, fails: the in-memory path, too, casts a \<open>cut_length\<close> field to
  float32. From an in-memory dataset whose \<open>cut_length\<close> field is of an integer type,
  the \<open>cut_length\<close> of the sample is a float32 tensor.
\<close>

theorem cut_length_in_memory_cast_counterexample:
  "has_key (self_data in_memory_example) ''cut_length'' \<and>
   fst (fetch_data_from_array mcar_ref [2, 0, 1, 3] in_memory_example 0) =
     Inr (example_sample missing_mask_hide_2) \<and>
   dtype_of (example_sample missing_mask_hide_2 ! 6) = Float32 \<and>
   dtype_of (example_sample missing_mask_hide_2 ! 6) \<noteq> Int64"
  by code_simp

text \<open>
  Claim C5, amended. Whenever a fetch returns a sample: without a \<open>cut_length\<close> field,
  the \<open>cut_length\<close> of the sample (element 6) is a vector of zeros of an integer type,
  as long as \<open>observed_data\<close>, which is the number of steps of the series when the
  masker keeps the shape; with a \<open>cut_length\<close> field, it is the row of that field
  cast to float32. This holds on both paths alike.
\<close>

theorem cut_length_resolution:
  "(fst (fetch_data_from_array mcar rng self idx) = Inr s \<longrightarrow>
      (\<not> has_key (self_data self) ''cut_length'' \<longrightarrow>
         (\<exists>n. py_len (s ! 1) = Inr n \<and>
              s ! 6 = Tensor Int64 (Arr (replicate n (Num (Fin 0)))) \<and>
              (getitem (self_X self) idx = Inr x \<and> same_shape (vals (s ! 1)) (vals x) \<longrightarrow>
                 py_len x = Inr n))) \<and>
      (has_key (self_data self) ''cut_length'' \<longrightarrow>
         load_float32 (self_data self) ''cut_length'' idx = Inr (s ! 6) \<and>
         dtype_of (s ! 6) = Float32)) \<and>
   (fst (fetch_data_from_file mcar rng self' idx') = Inr s' \<and>
    (case self_file_handle self' of None \<Rightarrow> open_file_handle self' | Some h' \<Rightarrow> h') = h \<longrightarrow>
      (\<not> has_key h ''cut_length'' \<longrightarrow>
         (\<exists>n. py_len (s' ! 1) = Inr n \<and>
              s' ! 6 = Tensor Int64 (Arr (replicate n (Num (Fin 0)))) \<and>
              (load_float32 h ''X'' idx' = Inr x' \<and> same_shape (vals (s' ! 1)) (vals x') \<longrightarrow>
                 py_len x' = Inr n))) \<and>
      (has_key h ''cut_length'' \<longrightarrow>
         load_float32 h ''cut_length'' idx' = Inr (s' ! 6) \<and>
         dtype_of (s' ! 6) = Float32))"
proof (intro conjI impI; (elim conjE)?)
  assume a: "fst (fetch_data_from_array mcar rng self idx) = Inr s"
    and b: "\<not> has_key (self_data self) ''cut_length''"
  from fetch_array_sample [OF a] b obtain n where
    "py_len (s ! 1) = Inr n" "s ! 6 = Tensor Int64 (Arr (replicate n (Num (Fin 0))))"
    by (auto simp: then_res_Inr_iff to_dtype_Int64_zeros)
  then show "\<exists>n. py_len (s ! 1) = Inr n \<and>
              s ! 6 = Tensor Int64 (Arr (replicate n (Num (Fin 0)))) \<and>
              (getitem (self_X self) idx = Inr x \<and> same_shape (vals (s ! 1)) (vals x) \<longrightarrow>
                 py_len x = Inr n)"
    using py_len_same_shape [of "s ! 1" x] by auto
next
  assume a: "fst (fetch_data_from_array mcar rng self idx) = Inr s"
    and b: "has_key (self_data self) ''cut_length''"
  from fetch_array_sample [OF a] b
  show c: "load_float32 (self_data self) ''cut_length'' idx = Inr (s ! 6)"
    by auto
  then show "dtype_of (s ! 6) = Float32"
    by (rule load_float32_dtype)
next
  assume a: "fst (fetch_data_from_file mcar rng self' idx') = Inr s'"
    and h: "(case self_file_handle self' of None \<Rightarrow> open_file_handle self' | Some h' \<Rightarrow> h') = h"
    and b: "\<not> has_key h ''cut_length''"
  from fetch_file_sample [OF h a] b obtain n where
    "py_len (s' ! 1) = Inr n" "s' ! 6 = Tensor Int64 (Arr (replicate n (Num (Fin 0))))"
    by (auto simp: then_res_Inr_iff to_dtype_Int64_zeros)
  then show "\<exists>n. py_len (s' ! 1) = Inr n \<and>
              s' ! 6 = Tensor Int64 (Arr (replicate n (Num (Fin 0)))) \<and>
              (load_float32 h ''X'' idx' = Inr x' \<and> same_shape (vals (s' ! 1)) (vals x') \<longrightarrow>
                 py_len x' = Inr n)"
    using py_len_same_shape [of "s' ! 1" x'] by auto
next
  assume a: "fst (fetch_data_from_file mcar rng self' idx') = Inr s'"
    and h: "(case self_file_handle self' of None \<Rightarrow> open_file_handle self' | Some h' \<Rightarrow> h') = h"
    and b: "has_key h ''cut_length''"
  from fetch_file_sample [OF h a] b
  show c: "load_float32 h ''cut_length'' idx' = Inr (s' ! 6)"
    by auto
  then show "dtype_of (s' ! 6) = Float32"
    by (rule load_float32_dtype)
qed

theorem cut_length_resolution_witness:
  "fst (fetch_data_from_array mcar_ref [2, 0, 1, 3] in_memory_plain 0) =
     Inr (plain_sample missing_mask_hide_2) \<and>
   \<not> has_key (self_data in_memory_plain) ''cut_length'' \<and>
   getitem (self_X in_memory_plain) 0 = Inr series_0 \<and>
   same_shape (vals (plain_sample missing_mask_hide_2 ! 1)) (vals series_0) \<and>
   py_len series_0 = Inr 2 \<and>
   plain_sample missing_mask_hide_2 ! 6 = Tensor Int64 (Arr (replicate 2 (Num (Fin 0)))) \<and>
   fst (fetch_data_from_file mcar_ref [2, 0, 1, 3] file_plain 0) =
     Inr (plain_sample indicating_mask_hide_2) \<and>
   (case self_file_handle file_plain of None \<Rightarrow> open_file_handle file_plain | Some h' \<Rightarrow> h') =
     plain_fields \<and>
   \<not> has_key plain_fields ''cut_length'' \<and>
   load_float32 plain_fields ''X'' 0 = Inr series_0_float32 \<and>
   same_shape (vals (plain_sample indicating_mask_hide_2 ! 1)) (vals series_0_float32) \<and>
   py_len series_0_float32 = Inr 2 \<and>
   plain_sample indicating_mask_hide_2 ! 6 = Tensor Int64 (Arr (replicate 2 (Num (Fin 0)))) \<and>
   fst (fetch_data_from_array mcar_ref [2, 0, 1, 3] in_memory_example 0) =
     Inr (example_sample missing_mask_hide_2) \<and>
   has_key (self_data in_memory_example) ''cut_length'' \<and>
   load_float32 (self_data in_memory_example) ''cut_length'' 0 =
     Inr (example_sample missing_mask_hide_2 ! 6) \<and>
   dtype_of (example_sample missing_mask_hide_2 ! 6) = Float32 \<and>
   fst (fetch_data_from_file mcar_ref [2, 0, 1, 3] file_example 0) =
     Inr (example_sample indicating_mask_hide_2) \<and>
   (case self_file_handle file_example of None \<Rightarrow> open_file_handle file_example | Some h' \<Rightarrow> h') =
     example_fields \<and>
   has_key example_fields ''cut_length'' \<and>
   load_float32 example_fields ''cut_length'' 0 = Inr (example_sample indicating_mask_hide_2 ! 6) \<and>
   dtype_of (example_sample indicating_mask_hide_2 ! 6) = Float32"
proof -
  have a: "fst (fetch_data_from_array mcar_ref [2, 0, 1, 3] in_memory_plain 0) =
      Inr (plain_sample missing_mask_hide_2)"
    "\<not> has_key (self_data in_memory_plain) ''cut_length''"
    "getitem (self_X in_memory_plain) 0 = Inr series_0"
    "same_shape (vals (plain_sample missing_mask_hide_2 ! 1)) (vals series_0)"
    by code_simp+
  have b: "fst (fetch_data_from_file mcar_ref [2, 0, 1, 3] file_plain 0) =
      Inr (plain_sample indicating_mask_hide_2)"
    "(case self_file_handle file_plain of None \<Rightarrow> open_file_handle file_plain | Some h' \<Rightarrow> h') =
      plain_fields"
    "\<not> has_key plain_fields ''cut_length''"
    "load_float32 plain_fields ''X'' 0 = Inr series_0_float32"
    "same_shape (vals (plain_sample indicating_mask_hide_2 ! 1)) (vals series_0_float32)"
    by code_simp+
  have c: "fst (fetch_data_from_array mcar_ref [2, 0, 1, 3] in_memory_example 0) =
      Inr (example_sample missing_mask_hide_2)"
    "has_key (self_data in_memory_example) ''cut_length''"
    by code_simp+
  have d: "fst (fetch_data_from_file mcar_ref [2, 0, 1, 3] file_example 0) =
      Inr (example_sample indicating_mask_hide_2)"
    "(case self_file_handle file_example of None \<Rightarrow> open_file_handle file_example | Some h' \<Rightarrow> h') =
      example_fields"
    "has_key example_fields ''cut_length''"
    by code_simp+
  have n: "py_len series_0 = Inr 2" "py_len series_0_float32 = Inr 2"
    by code_simp+
  note plain = cut_length_resolution [where mcar = mcar_ref and rng = "[2, 0, 1, 3]"
      and self = in_memory_plain and idx = 0
      and s = "plain_sample missing_mask_hide_2" and x = series_0
      and self' = file_plain and idx' = 0 and h = plain_fields
      and s' = "plain_sample indicating_mask_hide_2" and x' = series_0_float32]
  note example = cut_length_resolution [where mcar = mcar_ref and rng = "[2, 0, 1, 3]"
      and self = in_memory_example and idx = 0
      and s = "example_sample missing_mask_hide_2" and x = series_0
      and self' = file_example and idx' = 0 and h = example_fields
      and s' = "example_sample indicating_mask_hide_2" and x' = series_0_float32]
  from plain a n have 1:
    "plain_sample missing_mask_hide_2 ! 6 = Tensor Int64 (Arr (replicate 2 (Num (Fin 0))))"
    by auto
  from plain b n have 2:
    "plain_sample indicating_mask_hide_2 ! 6 = Tensor Int64 (Arr (replicate 2 (Num (Fin 0))))"
    by auto
  from example c have 3:
    "load_float32 (self_data in_memory_example) ''cut_length'' 0 =
       Inr (example_sample missing_mask_hide_2 ! 6) \<and>
     dtype_of (example_sample missing_mask_hide_2 ! 6) = Float32"
    by blast
  from example d have 4:
    "load_float32 example_fields ''cut_length'' 0 = Inr (example_sample indicating_mask_hide_2 ! 6) \<and>
     dtype_of (example_sample indicating_mask_hide_2 ! 6) = Float32"
    by blast
  from a b c d n 1 2 3 4 show ?thesis by blast
qed

end
